theory Spec2Isabelle
  imports Main
begin

section \<open>JavaScript values\<close>

text \<open>
  The handlers build their responses as object literals and compare identifiers that may be
  a string, \<open>null\<close> (an SQL NULL read from a row) or \<open>undefined\<close> (a property read through
  \<open>rows[0]?.id\<close> when the query returned no row). An object is the list of its properties
  in the order the literal writes them.
\<close>

datatype jsval =
    Undefined
  | Null
  | Bool bool
  | Num int
  | Str string
  | Arr "jsval list"
  | Obj "(string \<times> jsval) list"

text \<open>JavaScript truthiness, for \<open>if (x)\<close>, \<open>!x\<close> and \<open>x || y\<close>.\<close>

fun truthy :: "jsval \<Rightarrow> bool" where
  "truthy Undefined = False"
| "truthy Null = False"
| "truthy (Bool b) = b"
| "truthy (Num n) = (n \<noteq> 0)"
| "truthy (Str s) = (s \<noteq> [])"
| "truthy (Arr xs) = True"
| "truthy (Obj kvs) = True"

text \<open>A nullable column read into a JavaScript value.\<close>

definition of_text :: "string option \<Rightarrow> jsval" where
  "of_text c = (case c of None \<Rightarrow> Null | Some s \<Rightarrow> Str s)"

definition of_num :: "int option \<Rightarrow> jsval" where
  "of_num c = (case c of None \<Rightarrow> Null | Some n \<Rightarrow> Num n)"

definition of_time :: "nat option \<Rightarrow> jsval" where
  "of_time c = (case c of None \<Rightarrow> Null | Some t \<Rightarrow> Num (int t))"

definition keys :: "jsval \<Rightarrow> string list" where
  "keys v = (case v of Obj kvs \<Rightarrow> map fst kvs | _ \<Rightarrow> [])"

definition get_prop :: "jsval \<Rightarrow> string \<Rightarrow> jsval" where
  "get_prop v k = (case v of Obj kvs \<Rightarrow> (case map_of kvs k of None \<Rightarrow> Undefined | Some x \<Rightarrow> x)
               | _ \<Rightarrow> Undefined)"

section \<open>The relational store (database/schema.sql)\<close>

text \<open>
  One record per table, one field per column the modelled statements read or write.
  Identifiers are UUID strings, timestamps are seconds on the server's clock, DECIMAL(n,2)
  columns are held in hundredths. A nullable column is an \<open>option\<close>. A table is the
  list of its rows; a query without \<open>ORDER BY\<close> returns them in that order.

  A statement succeeds unless its definition says otherwise. The key constraints of the
  schema are checked where a statement could violate them: the unique \<open>email\<close> and the
  check on \<open>role\<close> of \<open>users\<close>, the foreign keys of \<open>tax_returns\<close>, and the
  reference from \<open>reviews\<close> that holds a return back. The transaction helper and the
  upload handler, which react to failures, get them as an input. Column widths are left out.
\<close>

record user_row =
  u_id :: string
  u_email :: string
  u_password_hash :: string
  u_first_name :: string
  u_last_name :: string
  u_phone :: "string option"
  u_role :: string
  u_is_verified :: bool
  u_verification_token :: "string option"
  u_reset_password_token :: "string option"
  u_reset_password_expires :: "nat option"
  u_last_login :: "nat option"
  u_created_at :: nat
  u_updated_at :: nat

record customer_row =
  c_id :: string
  c_user_id :: "string option"

record accountant_row =
  a_id :: string
  a_user_id :: "string option"
  a_qualification :: "string option"
  a_experience_years :: "int option"
  a_is_active :: bool

record tax_return_row =
  tr_id :: string
  tr_customer_id :: "string option"
  tr_accountant_id :: "string option"
  tr_tax_year :: string
  tr_status :: string
  tr_situation_type :: "string option"
  tr_total_income :: "int option"
  tr_total_tax_due :: "int option"
  tr_total_refund :: "int option"
  tr_submission_deadline :: "string option"
  tr_filed_date :: "nat option"
  tr_hmrc_reference :: "string option"
  tr_notes :: "string option"
  tr_price :: "int option"
  tr_payment_status :: "string option"
  tr_created_at :: nat
  tr_updated_at :: nat

text \<open>
  The child tables of a tax return. \<open>income_sources\<close>, \<open>expenses\<close>, \<open>payments\<close> and
  \<open>reviews\<close> are read and deleted by \<open>tax_return_id\<close> only, so a row is its key, its
  parent, the column its listing is ordered by, and its remaining columns as the object the
  driver returns for them.
\<close>

record child_row =
  ch_id :: string
  ch_tax_return_id :: "string option"
  ch_order :: nat
  ch_columns :: "(string \<times> jsval) list"

record document_row =
  d_id :: string
  d_tax_return_id :: "string option"
  d_uploaded_by :: "string option"
  d_document_type :: string
  d_original_name :: string
  d_file_path :: string
  d_file_size :: "int option"
  d_mime_type :: "string option"
  d_created_at :: nat

record message_row =
  m_id :: string
  m_tax_return_id :: "string option"
  m_sender_id :: "string option"
  m_recipient_id :: "string option"
  m_message :: string
  m_created_at :: nat

record db =
  users :: "user_row list"
  customers :: "customer_row list"
  accountants :: "accountant_row list"
  tax_returns :: "tax_return_row list"
  income_sources :: "child_row list"
  expenses :: "child_row list"
  documents :: "document_row list"
  messages :: "message_row list"
  payments :: "child_row list"
  reviews :: "child_row list"

section \<open>Errors and responses\<close>

text \<open>
  A thrown value is an \<open>Error\<close> with its message, a \<open>TypeError\<close> (reading a property of
  \<open>undefined\<close>), the driver's error with its SQLSTATE code, or the upload middleware's
  error with its code. A handler either answers
  (\<open>res.status(code).json(body)\<close>, 200 when no status is set) or hands an error to
  \<open>next\<close>, which reaches the application's terminal error responder.
\<close>

datatype js_error = Error string | TypeError string | DatabaseError string | MulterError string

datatype outcome = Respond nat jsval | NextError js_error

text \<open>The object literal \<open>{ success: false, error: msg }\<close> sent with a status code.\<close>

definition json_error :: "nat \<Rightarrow> string \<Rightarrow> outcome" where
  "json_error code msg = Respond code (Obj [(''success'', Bool False), (''error'', Str msg)])"

fun status_of :: "outcome \<Rightarrow> nat option" where
  "status_of (Respond code b) = Some code"
| "status_of (NextError e) = None"

fun body_of :: "outcome \<Rightarrow> jsval" where
  "body_of (Respond code b) = b"
| "body_of (NextError e) = Undefined"

section \<open>models/User\<close>

text \<open>
  The constructor copies thirteen columns of a \<open>users\<close> row into the instance; the
  \<open>password_hash\<close> column is not among them.
\<close>

record User =
  user_id :: string
  user_email :: string
  user_firstName :: string
  user_lastName :: string
  user_phone :: "string option"
  user_role :: string
  user_isVerified :: bool
  user_verificationToken :: "string option"
  user_resetPasswordToken :: "string option"
  user_resetPasswordExpires :: "nat option"
  user_lastLogin :: "nat option"
  user_createdAt :: nat
  user_updatedAt :: nat

definition new_User :: "user_row \<Rightarrow> User" where
  "new_User userData =
     \<lparr> user_id = u_id userData,
       user_email = u_email userData,
       user_firstName = u_first_name userData,
       user_lastName = u_last_name userData,
       user_phone = u_phone userData,
       user_role = u_role userData,
       user_isVerified = u_is_verified userData,
       user_verificationToken = u_verification_token userData,
       user_resetPasswordToken = u_reset_password_token userData,
       user_resetPasswordExpires = u_reset_password_expires userData,
       user_lastLogin = u_last_login userData,
       user_createdAt = u_created_at userData,
       user_updatedAt = u_updated_at userData \<rparr>"

text \<open>\<open>toJSON()\<close>: "Convert to JSON (exclude sensitive data)".\<close>

definition User_toJSON :: "User \<Rightarrow> jsval" where
  "User_toJSON this =
     Obj [ (''id'', Str (user_id this)),
           (''email'', Str (user_email this)),
           (''firstName'', Str (user_firstName this)),
           (''lastName'', Str (user_lastName this)),
           (''phone'', of_text (user_phone this)),
           (''role'', Str (user_role this)),
           (''isVerified'', Bool (user_isVerified this)),
           (''lastLogin'', of_time (user_lastLogin this)),
           (''createdAt'', Num (int (user_createdAt this))),
           (''updatedAt'', Num (int (user_updatedAt this))) ]"

section \<open>Credential material never reaches the serialised user\<close>

text \<open>
  C10. For every user, \<open>toJSON\<close> returns an object with exactly the properties id, email,
  firstName, lastName, phone, role, isVerified, lastLogin, createdAt, updatedAt, each holding
  the user's own field, and the result is the same whatever the row's password hash, email
  verification token, reset-password token and its expiry are: none of them is a property of
  the object and none of them influences it.
\<close>

theorem User_toJSON_excludes_credentials:
  "keys (User_toJSON (new_User row)) =
     [''id'', ''email'', ''firstName'', ''lastName'', ''phone'', ''role'', ''isVerified'',
      ''lastLogin'', ''createdAt'', ''updatedAt'']
   \<and> get_prop (User_toJSON (new_User row)) ''id'' = Str (u_id row)
   \<and> get_prop (User_toJSON (new_User row)) ''email'' = Str (u_email row)
   \<and> get_prop (User_toJSON (new_User row)) ''firstName'' = Str (u_first_name row)
   \<and> get_prop (User_toJSON (new_User row)) ''lastName'' = Str (u_last_name row)
   \<and> get_prop (User_toJSON (new_User row)) ''phone'' = of_text (u_phone row)
   \<and> get_prop (User_toJSON (new_User row)) ''role'' = Str (u_role row)
   \<and> get_prop (User_toJSON (new_User row)) ''isVerified'' = Bool (u_is_verified row)
   \<and> get_prop (User_toJSON (new_User row)) ''lastLogin'' = of_time (u_last_login row)
   \<and> get_prop (User_toJSON (new_User row)) ''createdAt'' = Num (int (u_created_at row))
   \<and> get_prop (User_toJSON (new_User row)) ''updatedAt'' = Num (int (u_updated_at row))
   \<and> get_prop (User_toJSON (new_User row)) ''passwordHash'' = Undefined
   \<and> get_prop (User_toJSON (new_User row)) ''password_hash'' = Undefined
   \<and> get_prop (User_toJSON (new_User row)) ''verificationToken'' = Undefined
   \<and> get_prop (User_toJSON (new_User row)) ''resetPasswordToken'' = Undefined
   \<and> User_toJSON (new_User (row\<lparr> u_password_hash := h, u_verification_token := v,
          u_reset_password_token := r, u_reset_password_expires := e \<rparr>))
       = User_toJSON (new_User row)"
  by (simp add: User_toJSON_def new_User_def keys_def get_prop_def)

section \<open>middleware/auth\<close>

text \<open>\<open>User.findById\<close>: \<open>SELECT * FROM users WHERE id = $1\<close>, the first row or \<open>null\<close>.\<close>

definition User_findById :: "db \<Rightarrow> string \<Rightarrow> User option" where
  "User_findById store uid =
     (case filter (\<lambda>r. u_id r = uid) (users store) of
        [] \<Rightarrow> None
      | r # rest \<Rightarrow> Some (new_User r))"

text \<open>\<open>req.user\<close>, the principal that \<open>authenticate\<close> attaches to the request.\<close>

record principal =
  pr_id :: string
  pr_email :: string
  pr_role :: string
  pr_firstName :: string
  pr_lastName :: string

text \<open>
  \<open>jwt.verify(token, process.env.JWT_SECRET)\<close> belongs to the jsonwebtoken package. It
  either returns the decoded payload, of which the middleware reads \<open>id\<close>, or throws an
  error whose \<open>name\<close> the middleware inspects. The verifier is a parameter of the model.
\<close>

datatype jwt_result = Decoded string | Throws string

definition startsWith :: "string \<Rightarrow> string \<Rightarrow> bool" where
  "startsWith s p = (take (length p) s = p)"

definition authenticate ::
  "(string \<Rightarrow> jwt_result) \<Rightarrow> db \<Rightarrow> string option \<Rightarrow> outcome + principal" where
  "authenticate jwt_verify store authHeader =
     (case authHeader of
        None \<Rightarrow> Inl (json_error 401 ''Access denied. No token provided.'')
      | Some h \<Rightarrow>
          if h = [] \<or> \<not> startsWith h ''Bearer ''
          then Inl (json_error 401 ''Access denied. No token provided.'')
          else
            let token = drop 7 h in
            (case jwt_verify token of
               Decoded uid \<Rightarrow>
                 (case User_findById store uid of
                    None \<Rightarrow> Inl (json_error 401 ''Access denied. User not found.'')
                  | Some user \<Rightarrow>
                      if \<not> user_isVerified user
                      then Inl (json_error 401 ''Access denied. Please verify your email address.'')
                      else Inr \<lparr> pr_id = user_id user,
                                 pr_email = user_email user,
                                 pr_role = user_role user,
                                 pr_firstName = user_firstName user,
                                 pr_lastName = user_lastName user \<rparr>)
             | Throws name \<Rightarrow>
                 if name = ''TokenExpiredError''
                 then Inl (json_error 401 ''Access denied. Token expired.'')
                 else if name = ''JsonWebTokenError''
                 then Inl (json_error 401 ''Access denied. Invalid token.'')
                 else Inl (json_error 500 ''Internal server error during authentication.'')))"

definition authorize :: "string list \<Rightarrow> principal option \<Rightarrow> outcome + unit" where
  "authorize roles user =
     (case user of
        None \<Rightarrow> Inl (json_error 401 ''Access denied. Authentication required.'')
      | Some u \<Rightarrow>
          if pr_role u \<notin> set roles
          then Inl (json_error 403 ''Access denied. Insufficient permissions.'')
          else Inr ())"

text \<open>
  \<open>checkOwnership(getResourceOwnerId)\<close>: the resolver's result is \<open>null\<close> or an
  identifier; the comparison \<open>req.user.id !== resourceOwnerId\<close> is strict.
\<close>

definition checkOwnership :: "jsval \<Rightarrow> principal option \<Rightarrow> outcome + unit" where
  "checkOwnership resourceOwnerId user =
     (case user of
        None \<Rightarrow> Inl (json_error 401 ''Authentication required.'')
      | Some u \<Rightarrow>
          if pr_role u = ''admin'' then Inr ()
          else if \<not> truthy resourceOwnerId
          then Inl (json_error 404 ''Resource not found.'')
          else if Str (pr_id u) \<noteq> resourceOwnerId
          then Inl (json_error 403 ''Access denied. You can only access your own resources.'')
          else Inr ())"

section \<open>Request validation\<close>

text \<open>
  \<open>handleValidationErrors\<close>: the route's validators have collected their messages; each
  entry of \<open>details\<close> stands for the validator package's error object, given by its message.
\<close>

definition handleValidationErrors :: "string list \<Rightarrow> outcome + unit" where
  "handleValidationErrors errors =
     (if errors \<noteq> []
      then Inl (Respond 400 (Obj [(''success'', Bool False),
                                  (''error'', Str ''Validation failed''),
                                  (''details'', Arr (map Str errors))]))
      else Inr ())"

text \<open>
  \<open>body(field).isIn(values).withMessage(msg)\<close> on a body property that is absent or a
  string: an absent property is validated as the empty string.
\<close>

definition isIn :: "string list \<Rightarrow> string \<Rightarrow> string option \<Rightarrow> string list" where
  "isIn values msg v =
     (if (case v of None \<Rightarrow> [] | Some s \<Rightarrow> s) \<in> set values then [] else [msg])"

section \<open>models/TaxReturn\<close>

text \<open>
  The constructor copies every one of the seventeen columns of a \<open>tax_returns\<close> row into
  the instance under its camel-case name, so an instance is its row.
\<close>

type_synonym TaxReturn = tax_return_row

definition TaxReturn_toJSON :: "TaxReturn \<Rightarrow> jsval" where
  "TaxReturn_toJSON this =
     Obj [ (''id'', Str (tr_id this)),
           (''customerId'', of_text (tr_customer_id this)),
           (''accountantId'', of_text (tr_accountant_id this)),
           (''taxYear'', Str (tr_tax_year this)),
           (''status'', Str (tr_status this)),
           (''situationType'', of_text (tr_situation_type this)),
           (''totalIncome'', of_num (tr_total_income this)),
           (''totalTaxDue'', of_num (tr_total_tax_due this)),
           (''totalRefund'', of_num (tr_total_refund this)),
           (''submissionDeadline'', of_text (tr_submission_deadline this)),
           (''filedDate'', of_time (tr_filed_date this)),
           (''hmrcReference'', of_text (tr_hmrc_reference this)),
           (''notes'', of_text (tr_notes this)),
           (''price'', of_num (tr_price this)),
           (''paymentStatus'', of_text (tr_payment_status this)),
           (''createdAt'', Num (int (tr_created_at this))),
           (''updatedAt'', Num (int (tr_updated_at this))) ]"

text \<open>\<open>findById\<close>: \<open>SELECT * FROM tax_returns WHERE id = $1\<close>.\<close>

definition TaxReturn_findById :: "db \<Rightarrow> string \<Rightarrow> TaxReturn option" where
  "TaxReturn_findById store rid =
     (case filter (\<lambda>r. tr_id r = rid) (tax_returns store) of
        [] \<Rightarrow> None
      | r # rest \<Rightarrow> Some r)"

text \<open>
  \<open>UPDATE tax_returns SET ... WHERE id = $n RETURNING *\<close>: every row with the key is
  rewritten, the schema's trigger stamps \<open>updated_at\<close>, and the rewritten rows come back.
  \<open>new TaxReturn(result.rows[0])\<close> reads the first of them and throws a TypeError when
  there is none.
\<close>

definition update_tax_returns ::
  "(tax_return_row \<Rightarrow> tax_return_row) \<Rightarrow> string \<Rightarrow> nat \<Rightarrow> db \<Rightarrow> (js_error + TaxReturn) \<times> db" where
  "update_tax_returns assign rid now store =
     (let write = (\<lambda>r. (assign r)\<lparr> tr_updated_at := now \<rparr>);
          rows = map write (filter (\<lambda>r. tr_id r = rid) (tax_returns store));
          store' = store\<lparr> tax_returns :=
                     map (\<lambda>r. if tr_id r = rid then write r else r) (tax_returns store) \<rparr>
      in case rows of
           [] \<Rightarrow> (Inl (TypeError ''Cannot read properties of undefined''), store')
         | r # rest \<Rightarrow> (Inr r, store'))"

text \<open>
  \<open>assignAccountant\<close>: \<open>SET accountant_id = $1, status = 'in_progress'\<close>. The column
  references \<open>accountants(id)\<close>, so the statement fails with a foreign-key violation when it
  would write an identifier that table does not hold.
\<close>

definition assignAccountant ::
  "TaxReturn \<Rightarrow> string \<Rightarrow> nat \<Rightarrow> db \<Rightarrow> (js_error + TaxReturn) \<times> db" where
  "assignAccountant this accountantId now store =
     (if (\<exists>r \<in> set (tax_returns store). tr_id r = tr_id this)
         \<and> accountantId \<notin> set (map a_id (accountants store))
      then (Inl (DatabaseError ''23503''), store)
      else update_tax_returns
             (\<lambda>r. r\<lparr> tr_accountant_id := Some accountantId, tr_status := ''in_progress'' \<rparr>)
             (tr_id this) now store)"

definition validStatuses :: "string list" where
  "validStatuses = [''pending'', ''in_progress'', ''review'', ''completed'', ''filed'', ''cancelled'']"

definition updateStatus ::
  "TaxReturn \<Rightarrow> string \<Rightarrow> nat \<Rightarrow> db \<Rightarrow> (js_error + TaxReturn) \<times> db" where
  "updateStatus this newStatus now store =
     (if newStatus \<notin> set validStatuses
      then (Inl (Error ''Invalid status''), store)
      else update_tax_returns (\<lambda>r. r\<lparr> tr_status := newStatus \<rparr>) (tr_id this) now store)"

section \<open>routes/taxReturns: status and assignment\<close>

text \<open>
  \<open>getCustomerIdFromUser\<close>: \<open>result.rows[0]?.id || null\<close>, so the result is \<open>null\<close>
  (\<open>None\<close>) or a non-empty identifier. The accountant's profile is looked up inline,
  without the \<open>|| null\<close>, so a missing profile is \<open>undefined\<close>.
\<close>

definition getCustomerIdFromUser :: "db \<Rightarrow> string \<Rightarrow> string option" where
  "getCustomerIdFromUser store userId =
     (case filter (\<lambda>c. c_user_id c = Some userId) (customers store) of
        [] \<Rightarrow> None
      | c # rest \<Rightarrow> if c_id c = [] then None else Some (c_id c))"

definition accountantIdOfUser :: "db \<Rightarrow> string \<Rightarrow> jsval" where
  "accountantIdOfUser store userId =
     (case filter (\<lambda>a. a_user_id a = Some userId) (accountants store) of
        [] \<Rightarrow> Undefined
      | a # rest \<Rightarrow> Str (a_id a))"

text \<open>
  \<open>PUT /:id/status\<close>, the final handler. \<open>req.body.status\<close> is absent or a string;
  \<open>updateStatus(undefined)\<close> throws as for any value outside the list.
\<close>

definition put_status_handler ::
  "principal \<Rightarrow> string \<Rightarrow> string option \<Rightarrow> nat \<Rightarrow> db \<Rightarrow> outcome \<times> db" where
  "put_status_handler user rid status now store =
     (case TaxReturn_findById store rid of
        None \<Rightarrow> (json_error 404 ''Tax return not found'', store)
      | Some taxReturn \<Rightarrow>
          if pr_role user = ''accountant''
             \<and> of_text (tr_accountant_id taxReturn) \<noteq> accountantIdOfUser store (pr_id user)
          then (json_error 403 ''Access denied'', store)
          else
            (case status of
               None \<Rightarrow> (NextError (Error ''Invalid status''), store)
             | Some newStatus \<Rightarrow>
                 (case updateStatus taxReturn newStatus now store of
                    (Inl e, store') \<Rightarrow> (NextError e, store')
                  | (Inr updatedTaxReturn, store') \<Rightarrow>
                      (Respond 200
                         (Obj [(''success'', Bool True),
                               (''message'', Str ''Tax return status updated successfully''),
                               (''data'', TaxReturn_toJSON updatedTaxReturn)]),
                       store'))))"

text \<open>The route: \<open>authenticate, authorize('accountant', 'admin'), [validators], handler\<close>.\<close>

definition put_status_route ::
  "(string \<Rightarrow> jwt_result) \<Rightarrow> string option \<Rightarrow> string \<Rightarrow> string option \<Rightarrow> nat \<Rightarrow> db
     \<Rightarrow> outcome \<times> db" where
  "put_status_route jwt_verify authHeader rid status now store =
     (case authenticate jwt_verify store authHeader of
        Inl out \<Rightarrow> (out, store)
      | Inr user \<Rightarrow>
          (case authorize [''accountant'', ''admin''] (Some user) of
             Inl out \<Rightarrow> (out, store)
           | Inr ok \<Rightarrow>
               (case handleValidationErrors
                       (isIn [''pending'', ''in_progress'', ''review'', ''completed'', ''filed'',
                              ''cancelled'']
                          ''Invalid status'' status) of
                  Inl out \<Rightarrow> (out, store)
                | Inr ok' \<Rightarrow> put_status_handler user rid status now store)))"

text \<open>
  \<open>PUT /:id/assign\<close>, the final handler: the accountant must exist and be active.
\<close>

definition put_assign_handler ::
  "string \<Rightarrow> string \<Rightarrow> nat \<Rightarrow> db \<Rightarrow> outcome \<times> db" where
  "put_assign_handler rid accountantId now store =
     (case TaxReturn_findById store rid of
        None \<Rightarrow> (json_error 404 ''Tax return not found'', store)
      | Some taxReturn \<Rightarrow>
          if filter (\<lambda>a. a_id a = accountantId \<and> a_is_active a) (accountants store) = []
          then (json_error 400 ''Invalid or inactive accountant'', store)
          else
            (case assignAccountant taxReturn accountantId now store of
               (Inl e, store') \<Rightarrow> (NextError e, store')
             | (Inr updatedTaxReturn, store') \<Rightarrow>
                 (Respond 200
                    (Obj [(''success'', Bool True),
                          (''message'', Str ''Accountant assigned successfully''),
                          (''data'', TaxReturn_toJSON updatedTaxReturn)]),
                  store')))"

section \<open>A sample store\<close>

text \<open>
  One verified administrator, a verified customer whose profile owns a pending and a filed
  return, a verified accountant with a profile who is assigned to nothing, and a second
  customer who owns nothing.
\<close>

definition sample_user :: "string \<Rightarrow> string \<Rightarrow> string \<Rightarrow> user_row" where
  "sample_user uid email role =
     \<lparr> u_id = uid, u_email = email, u_password_hash = ''$2a$12$hash'',
       u_first_name = ''Ada'', u_last_name = ''Smith'', u_phone = None, u_role = role,
       u_is_verified = True, u_verification_token = None, u_reset_password_token = None,
       u_reset_password_expires = None, u_last_login = None, u_created_at = 1,
       u_updated_at = 1 \<rparr>"

definition sample_return :: "string \<Rightarrow> string \<Rightarrow> string \<Rightarrow> string \<Rightarrow> tax_return_row" where
  "sample_return rid customerId taxYear st =
     \<lparr> tr_id = rid, tr_customer_id = Some customerId, tr_accountant_id = None,
       tr_tax_year = taxYear, tr_status = st, tr_situation_type = Some ''landlord'',
       tr_total_income = None, tr_total_tax_due = None, tr_total_refund = None,
       tr_submission_deadline = Some ''2024-01-31'', tr_filed_date = None,
       tr_hmrc_reference = None, tr_notes = None, tr_price = Some 16900,
       tr_payment_status = Some ''pending'', tr_created_at = 2, tr_updated_at = 2 \<rparr>"

definition sample_store :: db where
  "sample_store =
     \<lparr> users = [sample_user ''u-admin'' ''admin@taxpro.com'' ''admin'',
                sample_user ''u-cust'' ''cust@example.com'' ''customer'',
                sample_user ''u-acc'' ''acc@example.com'' ''accountant'',
                sample_user ''u-other'' ''other@example.com'' ''customer''],
       customers = [\<lparr> c_id = ''c-1'', c_user_id = Some ''u-cust'' \<rparr>,
                    \<lparr> c_id = ''c-2'', c_user_id = Some ''u-other'' \<rparr>],
       accountants = [\<lparr> a_id = ''a-1'', a_user_id = Some ''u-acc'', a_qualification = Some ''ACCA'',
                         a_experience_years = Some 5, a_is_active = True \<rparr>],
       tax_returns = [sample_return ''r-1'' ''c-1'' ''2023-24'' ''pending'',
                      sample_return ''r-2'' ''c-1'' ''2022-23'' ''filed''],
       income_sources = [], expenses = [], documents = [], messages = [], payments = [],
       reviews = [] \<rparr>"

text \<open>A verifier that accepts the token \<open>tok-<user id>\<close> and reports any other as tampered.\<close>

definition sample_verify :: "string \<Rightarrow> jwt_result" where
  "sample_verify token =
     (if take 4 token = ''tok-'' then Decoded (drop 4 token)
      else if token = ''expired'' then Throws ''TokenExpiredError''
      else Throws ''JsonWebTokenError'')"

section \<open>Status updates are not ordered\<close>

lemma update_tax_returns_found:
  assumes "TaxReturn_findById store rid = Some taxReturn"
  shows "update_tax_returns assign rid now store =
           (Inr ((assign taxReturn)\<lparr> tr_updated_at := now \<rparr>),
            store\<lparr> tax_returns :=
              map (\<lambda>r. if tr_id r = rid then (assign r)\<lparr> tr_updated_at := now \<rparr> else r)
                  (tax_returns store) \<rparr>)"
  using assms
  by (auto simp: update_tax_returns_def TaxReturn_findById_def Let_def split: list.splits)

lemma TaxReturn_findById_id:
  "TaxReturn_findById store rid = Some taxReturn \<Longrightarrow> tr_id taxReturn = rid"
  by (auto simp: TaxReturn_findById_def split: list.splits dest: filter_eq_ConsD)

text \<open>
  C6. For every stored tax return, whatever its current status, and every status of the
  enumerated list, the request \<open>PUT /:id/status\<close> of an authenticated administrator, or of
  the accountant assigned to the return, is answered 200 with the updated return, and the
  store then holds the new status in the return's row (every other row is as before). No
  ordering of statuses is consulted.
\<close>

theorem status_update_unguarded:
  assumes auth: "authenticate jwt_verify store authHeader = Inr user"
    and role: "pr_role user = ''admin''
               \<or> (pr_role user = ''accountant''
                   \<and> accountantIdOfUser store (pr_id user) = of_text (tr_accountant_id taxReturn))"
    and found: "TaxReturn_findById store rid = Some taxReturn"
    and valid: "newStatus \<in> set validStatuses"
  shows "put_status_route jwt_verify authHeader rid (Some newStatus) now store =
           (Respond 200
              (Obj [(''success'', Bool True),
                    (''message'', Str ''Tax return status updated successfully''),
                    (''data'', TaxReturn_toJSON
                                 (taxReturn\<lparr> tr_status := newStatus, tr_updated_at := now \<rparr>))]),
            store\<lparr> tax_returns :=
              map (\<lambda>r. if tr_id r = rid then r\<lparr> tr_status := newStatus, tr_updated_at := now \<rparr>
                        else r)
                  (tax_returns store) \<rparr>)"
proof -
  have a: "authorize [''accountant'', ''admin''] (Some user) = Inr ()"
    using role by (auto simp: authorize_def)
  have v: "handleValidationErrors
             (isIn [''pending'', ''in_progress'', ''review'', ''completed'', ''filed'', ''cancelled'']
                ''Invalid status'' (Some newStatus)) = Inr ()"
    using valid by (simp add: handleValidationErrors_def isIn_def validStatuses_def)
  have i: "tr_id taxReturn = rid"
    using found by (rule TaxReturn_findById_id)
  have u: "updateStatus taxReturn newStatus now store =
             (Inr (taxReturn\<lparr> tr_status := newStatus, tr_updated_at := now \<rparr>),
              store\<lparr> tax_returns :=
                map (\<lambda>r. if tr_id r = rid then r\<lparr> tr_status := newStatus, tr_updated_at := now \<rparr>
                          else r)
                    (tax_returns store) \<rparr>)"
    using valid by (simp add: updateStatus_def i update_tax_returns_found [OF found])
  have h: "put_status_handler user rid (Some newStatus) now store =
           (Respond 200
              (Obj [(''success'', Bool True),
                    (''message'', Str ''Tax return status updated successfully''),
                    (''data'', TaxReturn_toJSON
                                 (taxReturn\<lparr> tr_status := newStatus, tr_updated_at := now \<rparr>))]),
            store\<lparr> tax_returns :=
              map (\<lambda>r. if tr_id r = rid then r\<lparr> tr_status := newStatus, tr_updated_at := now \<rparr>
                        else r)
                  (tax_returns store) \<rparr>)"
    using role by (auto simp: put_status_handler_def found u)
  show ?thesis
    by (simp add: put_status_route_def auth a v h)
qed

lemma sample_admin_authenticated:
  "authenticate sample_verify sample_store (Some ''Bearer tok-u-admin'') =
     Inr \<lparr> pr_id = ''u-admin'', pr_email = ''admin@taxpro.com'', pr_role = ''admin'',
           pr_firstName = ''Ada'', pr_lastName = ''Smith'' \<rparr>"
  by (simp add: authenticate_def startsWith_def sample_verify_def User_findById_def
      sample_store_def sample_user_def new_User_def)

lemma sample_found_r1:
  "TaxReturn_findById sample_store ''r-1'' =
     Some (sample_return ''r-1'' ''c-1'' ''2023-24'' ''pending'')"
  by (simp add: TaxReturn_findById_def sample_store_def sample_return_def)

lemma sample_found_r2:
  "TaxReturn_findById sample_store ''r-2'' =
     Some (sample_return ''r-2'' ''c-1'' ''2022-23'' ''filed'')"
  by (simp add: TaxReturn_findById_def sample_store_def sample_return_def)

text \<open>An administrator moves the pending return \<open>r-1\<close> straight to \<open>filed\<close>.\<close>

theorem status_update_unguarded_witness:
  "tr_status (sample_return ''r-1'' ''c-1'' ''2023-24'' ''pending'') = ''pending''
   \<and> put_status_route sample_verify (Some ''Bearer tok-u-admin'') ''r-1'' (Some ''filed'') 9
         sample_store =
       (Respond 200
          (Obj [(''success'', Bool True),
                (''message'', Str ''Tax return status updated successfully''),
                (''data'', TaxReturn_toJSON
                   ((sample_return ''r-1'' ''c-1'' ''2023-24'' ''pending'')
                      \<lparr> tr_status := ''filed'', tr_updated_at := 9 \<rparr>))]),
        sample_store\<lparr> tax_returns :=
          [(sample_return ''r-1'' ''c-1'' ''2023-24'' ''pending'')
             \<lparr> tr_status := ''filed'', tr_updated_at := 9 \<rparr>,
           sample_return ''r-2'' ''c-1'' ''2022-23'' ''filed''] \<rparr>)"
proof -
  have valid: "''filed'' \<in> set validStatuses"
    by (simp add: validStatuses_def)
  show ?thesis
    using status_update_unguarded [OF sample_admin_authenticated _ sample_found_r1 valid, of 9]
    by (simp add: sample_store_def sample_return_def)
qed

section \<open>Assignment always resets the status\<close>

text \<open>
  Against C7 as stated: the statement of \<open>assignAccountant\<close> has no condition on the
  current status. On the sample store, assigning accountant \<open>a-1\<close> to the filed return
  \<open>r-2\<close> turns its status back to \<open>in_progress\<close>.
\<close>

theorem assignAccountant_keeps_advanced_status_counterexample:
  "tr_status (sample_return ''r-2'' ''c-1'' ''2022-23'' ''filed'') = ''filed''
   \<and> fst (assignAccountant (sample_return ''r-2'' ''c-1'' ''2022-23'' ''filed'') ''a-1'' 9
            sample_store)
       = Inr ((sample_return ''r-2'' ''c-1'' ''2022-23'' ''filed'')
                \<lparr> tr_accountant_id := Some ''a-1'', tr_status := ''in_progress'',
                  tr_updated_at := 9 \<rparr>)
   \<and> map tr_status (tax_returns (snd (assignAccountant
          (sample_return ''r-2'' ''c-1'' ''2022-23'' ''filed'') ''a-1'' 9 sample_store)))
       = [''pending'', ''in_progress'']"
  by (simp add: assignAccountant_def update_tax_returns_def sample_store_def sample_return_def)

text \<open>
  C7 (amended). For every stored tax return and every accountant of the \<open>accountants\<close>
  table, \<open>assignAccountant\<close> sets the return's \<open>accountant_id\<close> and sets its status to
  \<open>in_progress\<close> whatever the status was, the default \<open>pending\<close> or any later one; every
  other row is as before.
\<close>

theorem assignAccountant_forces_in_progress:
  assumes found: "TaxReturn_findById store (tr_id this) = Some row"
    and acc: "accountantId \<in> set (map a_id (accountants store))"
  shows "assignAccountant this accountantId now store =
           (Inr (row\<lparr> tr_accountant_id := Some accountantId, tr_status := ''in_progress'',
                       tr_updated_at := now \<rparr>),
            store\<lparr> tax_returns :=
              map (\<lambda>r. if tr_id r = tr_id this
                        then r\<lparr> tr_accountant_id := Some accountantId,
                                tr_status := ''in_progress'', tr_updated_at := now \<rparr>
                        else r)
                  (tax_returns store) \<rparr>)"
  using acc by (simp add: assignAccountant_def update_tax_returns_found [OF found])

theorem assignAccountant_forces_in_progress_witness:
  "assignAccountant (sample_return ''r-1'' ''c-1'' ''2023-24'' ''pending'') ''a-1'' 9 sample_store =
     (Inr ((sample_return ''r-1'' ''c-1'' ''2023-24'' ''pending'')
             \<lparr> tr_accountant_id := Some ''a-1'', tr_status := ''in_progress'',
               tr_updated_at := 9 \<rparr>),
      sample_store\<lparr> tax_returns :=
        [(sample_return ''r-1'' ''c-1'' ''2023-24'' ''pending'')
           \<lparr> tr_accountant_id := Some ''a-1'', tr_status := ''in_progress'', tr_updated_at := 9 \<rparr>,
         sample_return ''r-2'' ''c-1'' ''2022-23'' ''filed''] \<rparr>)"
proof -
  have found: "TaxReturn_findById sample_store
                 (tr_id (sample_return ''r-1'' ''c-1'' ''2023-24'' ''pending'')) =
               Some (sample_return ''r-1'' ''c-1'' ''2023-24'' ''pending'')"
    by (simp add: TaxReturn_findById_def sample_store_def sample_return_def)
  have acc: "''a-1'' \<in> set (map a_id (accountants sample_store))"
    by (simp add: sample_store_def)
  show ?thesis
    using assignAccountant_forces_in_progress [OF found acc, of 9]
    by (simp add: sample_store_def sample_return_def)
qed

section \<open>Expired and tampered tokens\<close>

text \<open>
  C4. For every bearer token presented to \<open>authenticate\<close>: when the verifier reports the
  token as past its expiry (it throws \<open>TokenExpiredError\<close>), the request is answered 401
  with the error "Access denied. Token expired."; when it reports a signature that does not
  verify (it throws \<open>JsonWebTokenError\<close>), the request is answered 401 with the error
  "Access denied. Invalid token."; the two answers differ.
\<close>

theorem authenticate_expired_and_invalid:
  "(jwt_verify token = Throws ''TokenExpiredError'' \<longrightarrow>
      authenticate jwt_verify store (Some (''Bearer '' @ token)) =
        Inl (Respond 401 (Obj [(''success'', Bool False),
                               (''error'', Str ''Access denied. Token expired.'')])))
   \<and> (jwt_verify token = Throws ''JsonWebTokenError'' \<longrightarrow>
      authenticate jwt_verify store (Some (''Bearer '' @ token)) =
        Inl (Respond 401 (Obj [(''success'', Bool False),
                               (''error'', Str ''Access denied. Invalid token.'')])))
   \<and> Respond 401 (Obj [(''success'', Bool False), (''error'', Str ''Access denied. Token expired.'')])
       \<noteq> Respond 401 (Obj [(''success'', Bool False), (''error'', Str ''Access denied. Invalid token.'')])"
  by (simp add: authenticate_def startsWith_def json_error_def)

theorem authenticate_expired_and_invalid_witness:
  "sample_verify ''expired'' = Throws ''TokenExpiredError''
   \<and> authenticate sample_verify sample_store (Some ''Bearer expired'') =
        Inl (Respond 401 (Obj [(''success'', Bool False),
                               (''error'', Str ''Access denied. Token expired.'')]))
   \<and> sample_verify ''tok.u-cust.forged'' = Throws ''JsonWebTokenError''
   \<and> authenticate sample_verify sample_store (Some ''Bearer tok.u-cust.forged'') =
        Inl (Respond 401 (Obj [(''success'', Bool False),
                               (''error'', Str ''Access denied. Invalid token.'')]))"
proof -
  have e: "sample_verify ''expired'' = Throws ''TokenExpiredError''"
    by (simp add: sample_verify_def)
  have t: "sample_verify ''tok.u-cust.forged'' = Throws ''JsonWebTokenError''"
    by (simp add: sample_verify_def)
  show ?thesis
    using authenticate_expired_and_invalid [of sample_verify "''expired''" sample_store]
      authenticate_expired_and_invalid [of sample_verify "''tok.u-cust.forged''" sample_store]
      e t
    by simp
qed

section \<open>models/User: queries and updates\<close>

text \<open>\<open>findByEmail\<close>: \<open>SELECT * FROM users WHERE email = $1\<close>.\<close>

definition User_findByEmail :: "db \<Rightarrow> string \<Rightarrow> User option" where
  "User_findByEmail store email =
     (case filter (\<lambda>r. u_email r = email) (users store) of
        [] \<Rightarrow> None
      | r # rest \<Rightarrow> Some (new_User r))"

text \<open>
  \<open>create\<close>. The bcrypt digest of the password, the \<open>uuidv4()\<close> verification token,
  the row's generated key and the clock are inputs. The statement violates the unique
  constraint on \<open>email\<close> (SQLSTATE 23505, rethrown as "Email already exists") or the check
  constraint on \<open>role\<close> (23514, rethrown as it is); otherwise the row is appended with the
  schema's defaults.
\<close>

record userData =
  ud_email :: string
  ud_password :: string
  ud_firstName :: string
  ud_lastName :: string
  ud_phone :: "string option"
  ud_role :: "string option"

record fresh =
  fr_passwordHash :: string
  fr_uuid :: string
  fr_id :: string
  fr_profile_id :: string
  fr_now :: nat

definition User_create :: "userData \<Rightarrow> fresh \<Rightarrow> db \<Rightarrow> (js_error + User) \<times> db" where
  "User_create data fr store =
     (let role = (case ud_role data of None \<Rightarrow> ''customer'' | Some r \<Rightarrow> r);
          row = \<lparr> u_id = fr_id fr,
                  u_email = ud_email data,
                  u_password_hash = fr_passwordHash fr,
                  u_first_name = ud_firstName data,
                  u_last_name = ud_lastName data,
                  u_phone = ud_phone data,
                  u_role = role,
                  u_is_verified = False,
                  u_verification_token = Some (fr_uuid fr),
                  u_reset_password_token = None,
                  u_reset_password_expires = None,
                  u_last_login = None,
                  u_created_at = fr_now fr,
                  u_updated_at = fr_now fr \<rparr>
      in if role \<notin> set [''customer'', ''accountant'', ''admin'']
         then (Inl (DatabaseError ''23514''), store)
         else if ud_email data \<in> set (map u_email (users store))
         then (Inl (Error ''Email already exists''), store)
         else (Inr (new_User row), store\<lparr> users := users store @ [row] \<rparr>))"

text \<open>
  \<open>setResetPasswordToken\<close>: the token is a \<open>uuidv4()\<close>, the expiry one hour from now;
  \<open>result.rows[0].reset_password_token\<close> throws a TypeError when no row was updated.
\<close>

definition setResetPasswordToken :: "User \<Rightarrow> string \<Rightarrow> nat \<Rightarrow> db \<Rightarrow> (js_error + string) \<times> db" where
  "setResetPasswordToken this resetToken now store =
     (let write = (\<lambda>r. r\<lparr> u_reset_password_token := Some resetToken,
                              u_reset_password_expires := Some (now + 3600),
                              u_updated_at := now \<rparr>);
          store' = store\<lparr> users :=
                     map (\<lambda>r. if u_id r = user_id this then write r else r) (users store) \<rparr>
      in case filter (\<lambda>r. u_id r = user_id this) (users store) of
           [] \<Rightarrow> (Inl (TypeError ''Cannot read properties of undefined''), store')
         | r # rest \<Rightarrow> (Inr resetToken, store'))"

text \<open>
  \<open>generateToken\<close>: \<open>jwt.sign\<close> of the payload \<open>{id, email, role}\<close>; the signer, bound to
  the configured secret and lifetime, is a parameter.
\<close>

definition generateToken :: "(string \<Rightarrow> string \<Rightarrow> string \<Rightarrow> string) \<Rightarrow> User \<Rightarrow> string" where
  "generateToken jwt_sign this = jwt_sign (user_id this) (user_email this) (user_role this)"

section \<open>routes/auth\<close>

text \<open>
  \<open>POST /register\<close>. The validators and sanitisers of the route belong to the validator
  package: the model takes the messages they collected and the body as they left it.
\<close>

definition register_handler ::
  "(string \<Rightarrow> string \<Rightarrow> string \<Rightarrow> string) \<Rightarrow> userData \<Rightarrow> fresh \<Rightarrow> db \<Rightarrow> outcome \<times> db" where
  "register_handler jwt_sign reqBody fr store =
     (case User_findByEmail store (ud_email reqBody) of
        Some existingUser \<Rightarrow> (json_error 400 ''User with this email already exists'', store)
      | None \<Rightarrow>
          (case User_create
                  (reqBody\<lparr> ud_role :=
                     Some (case ud_role reqBody of
                             None \<Rightarrow> ''customer''
                           | Some r \<Rightarrow> if r = [] then ''customer'' else r) \<rparr>)
                  fr store of
             (Inl e, store') \<Rightarrow> (NextError e, store')
           | (Inr user, store') \<Rightarrow>
               (let store'' =
                      (if user_role user = ''customer''
                       then store'\<lparr> customers := customers store' @
                              [\<lparr> c_id = fr_profile_id fr, c_user_id = Some (user_id user) \<rparr>] \<rparr>
                       else if user_role user = ''accountant''
                       then store'\<lparr> accountants := accountants store' @
                              [\<lparr> a_id = fr_profile_id fr, a_user_id = Some (user_id user),
                                 a_qualification = None, a_experience_years = None,
                                 a_is_active = True \<rparr>] \<rparr>
                       else store');
                    token = generateToken jwt_sign user
                in (Respond 201
                      (Obj [(''success'', Bool True),
                            (''message'', Str ''User registered successfully. Please check your email to verify your account.''),
                            (''data'', Obj [(''user'', User_toJSON user),
                                            (''token'', Str token)])]),
                    store''))))"

definition register_route ::
  "(string \<Rightarrow> string \<Rightarrow> string \<Rightarrow> string) \<Rightarrow> string list \<Rightarrow> userData \<Rightarrow> fresh \<Rightarrow> db
     \<Rightarrow> outcome \<times> db" where
  "register_route jwt_sign errors reqBody fr store =
     (case handleValidationErrors errors of
        Inl out \<Rightarrow> (out, store)
      | Inr ok \<Rightarrow> register_handler jwt_sign reqBody fr store)"

text \<open>
  \<open>POST /forgot-password\<close>. \<open>NODE_ENV\<close> is the environment variable, absent or a string;
  the spread \<open>...(NODE_ENV === 'development' && { resetToken })\<close> adds the property in
  development only.
\<close>

definition forgot_password_handler ::
  "string option \<Rightarrow> string \<Rightarrow> string \<Rightarrow> nat \<Rightarrow> db \<Rightarrow> outcome \<times> db" where
  "forgot_password_handler NODE_ENV email uuid now store =
     (case User_findByEmail store email of
        None \<Rightarrow>
          (Respond 200
             (Obj [(''success'', Bool True),
                   (''message'', Str ''If an account with that email exists, we have sent a password reset link.'')]),
           store)
      | Some user \<Rightarrow>
          (case setResetPasswordToken user uuid now store of
             (Inl e, store') \<Rightarrow> (NextError e, store')
           | (Inr resetToken, store') \<Rightarrow>
               (Respond 200
                  (Obj ([(''success'', Bool True),
                         (''message'', Str ''Password reset link sent to your email'')]
                        @ (if NODE_ENV = Some ''development''
                           then [(''resetToken'', Str resetToken)] else []))),
                store')))"

definition forgot_password_route ::
  "string option \<Rightarrow> string list \<Rightarrow> string \<Rightarrow> string \<Rightarrow> nat \<Rightarrow> db \<Rightarrow> outcome \<times> db" where
  "forgot_password_route NODE_ENV errors email uuid now store =
     (case handleValidationErrors errors of
        Inl out \<Rightarrow> (out, store)
      | Inr ok \<Rightarrow> forgot_password_handler NODE_ENV email uuid now store)"

section \<open>Registering an email twice\<close>

lemma User_findByEmail_present:
  assumes "email \<in> set (map u_email (users store))"
  shows "\<exists>existingUser. User_findByEmail store email = Some existingUser"
proof -
  from assms have "filter (\<lambda>r. u_email r = email) (users store) \<noteq> []"
    by (auto simp: filter_empty_conv)
  then show ?thesis
    by (auto simp: User_findByEmail_def split: list.splits)
qed

text \<open>
  C5. For every email address held by a row of the \<open>users\<close> table, a
  \<open>POST /api/auth/register\<close> that passes validation with that email is answered 400 with
  the error "User with this email already exists", and the store after the request is the
  store before it: no user row and no profile row is inserted.
\<close>

theorem register_existing_email_conflict:
  assumes "email \<in> set (map u_email (users store))"
    and "ud_email reqBody = email"
  shows "register_route jwt_sign [] reqBody fr store =
           (Respond 400 (Obj [(''success'', Bool False),
                              (''error'', Str ''User with this email already exists'')]),
            store)"
proof -
  obtain existingUser where "User_findByEmail store (ud_email reqBody) = Some existingUser"
    using User_findByEmail_present assms by blast
  then show ?thesis
    by (simp add: register_route_def handleValidationErrors_def register_handler_def
        json_error_def)
qed

definition sample_sign :: "string \<Rightarrow> string \<Rightarrow> string \<Rightarrow> string" where
  "sample_sign uid email role = ''tok-'' @ uid"

definition sample_fresh :: fresh where
  "sample_fresh = \<lparr> fr_passwordHash = ''$2a$12$other'', fr_uuid = ''v-9'', fr_id = ''u-9'',
                    fr_profile_id = ''p-9'', fr_now = 9 \<rparr>"

definition sample_registration :: "string \<Rightarrow> userData" where
  "sample_registration email =
     \<lparr> ud_email = email, ud_password = ''Passw0rd'', ud_firstName = ''Bea'',
       ud_lastName = ''Jones'', ud_phone = None, ud_role = None \<rparr>"

theorem register_existing_email_conflict_witness:
  "register_route sample_sign [] (sample_registration ''cust@example.com'') sample_fresh
     sample_store =
     (Respond 400 (Obj [(''success'', Bool False),
                        (''error'', Str ''User with this email already exists'')]),
      sample_store)
   \<and> length (users (snd (register_route sample_sign [] (sample_registration ''cust@example.com'')
        sample_fresh sample_store))) = 4"
proof -
  have "''cust@example.com'' \<in> set (map u_email (users sample_store))"
    by (simp add: sample_store_def sample_user_def)
  moreover have "ud_email (sample_registration ''cust@example.com'') = ''cust@example.com''"
    by (simp add: sample_registration_def)
  ultimately show ?thesis
    using register_existing_email_conflict [of "''cust@example.com''" sample_store
        "sample_registration ''cust@example.com''" sample_sign sample_fresh]
    by (simp add: sample_store_def)
qed

section \<open>Forgotten passwords\<close>

text \<open>
  C9. Outside development mode the two answers of \<open>POST /api/auth/forgot-password\<close>, for
  an email with an account and for one without, carry the same status 200 but different
  messages, although the handler's own comment reads "Don't reveal if email exists or not":
  evaluated on the sample store for \<open>cust@example.com\<close> and \<open>nobody@example.com\<close>.
\<close>

theorem forgot_password_reveals_account:
  "status_of (fst (forgot_password_route (Some ''production'') [] ''cust@example.com'' ''t-9'' 9
                     sample_store)) = Some 200
   \<and> status_of (fst (forgot_password_route (Some ''production'') [] ''nobody@example.com'' ''t-9'' 9
                     sample_store)) = Some 200
   \<and> body_of (fst (forgot_password_route (Some ''production'') [] ''cust@example.com'' ''t-9'' 9
                     sample_store))
     = Obj [(''success'', Bool True),
            (''message'', Str ''Password reset link sent to your email'')]
   \<and> body_of (fst (forgot_password_route (Some ''production'') [] ''nobody@example.com'' ''t-9'' 9
                     sample_store))
     = Obj [(''success'', Bool True),
            (''message'', Str ''If an account with that email exists, we have sent a password reset link.'')]
   \<and> body_of (fst (forgot_password_route (Some ''production'') [] ''cust@example.com'' ''t-9'' 9
                     sample_store))
     \<noteq> body_of (fst (forgot_password_route (Some ''production'') [] ''nobody@example.com'' ''t-9'' 9
                     sample_store))"
  by (simp add: forgot_password_route_def handleValidationErrors_def forgot_password_handler_def
      User_findByEmail_def setResetPasswordToken_def sample_store_def sample_user_def new_User_def)

section \<open>routes/taxReturns: creation\<close>

text \<open>
  The optional filters of the listings: a property is absent or a string, and \<open>if (x)\<close>
  holds for a non-empty string. \<open>limit\<close> is the row count its string denotes.
\<close>

record filters =
  f_status :: "string option"
  f_taxYear :: "string option"
  f_limit :: "nat option"

definition present :: "string option \<Rightarrow> bool" where
  "present v = (case v of None \<Rightarrow> False | Some s \<Rightarrow> s \<noteq> [])"

text \<open>
  \<open>findByCustomerId\<close>: the predicates are appended for the filters that are present, the
  rows come newest first (\<open>ORDER BY created_at DESC\<close>; the order among equal timestamps is
  the database's), cut at the limit.
\<close>

definition findByCustomerId :: "db \<Rightarrow> string \<Rightarrow> filters \<Rightarrow> TaxReturn list" where
  "findByCustomerId store customerId fs =
     (let rows0 = filter (\<lambda>r. tr_customer_id r = Some customerId) (tax_returns store);
          rows1 = (if present (f_status fs)
                   then filter (\<lambda>r. Some (tr_status r) = f_status fs) rows0 else rows0);
          rows2 = (if present (f_taxYear fs)
                   then filter (\<lambda>r. Some (tr_tax_year r) = f_taxYear fs) rows1 else rows1);
          rows3 = rev (sort_key tr_created_at rows2)
      in case f_limit fs of None \<Rightarrow> rows3 | Some n \<Rightarrow> take n rows3)"

text \<open>
  A value bound to the \<open>submission_deadline\<close> parameter. A string of the request is
  parsed by the DATE input of the database, which belongs to PostgreSQL and is a parameter
  here: it gives the calendar day it stores, or the SQLSTATE with which it refuses the text
  (22007, 22008). A JavaScript \<open>Date\<close> is written by the driver in the local time of the
  process, and the column keeps the calendar day of that text: the value carries this day.
\<close>

datatype date_param = DateText string | LocalDay string

definition bind_date :: "(string \<Rightarrow> string + string) \<Rightarrow> date_param option \<Rightarrow> string + string option" where
  "bind_date date_in p =
     (case p of
        None \<Rightarrow> Inr None
      | Some (LocalDay day) \<Rightarrow> Inr (Some day)
      | Some (DateText s) \<Rightarrow>
          (case date_in s of Inl code \<Rightarrow> Inl code | Inr day \<Rightarrow> Inr (Some day)))"

text \<open>
  \<open>create\<close>: the INSERT names five columns, the others take the schema's defaults. The
  key the database generates and its clock are inputs. A deadline that is no date is refused
  when the parameters are read; \<open>tax_year\<close> is NOT NULL (23502) and \<open>customer_id\<close>
  references \<open>customers(id)\<close> (23503).
\<close>

record taxReturnData =
  td_customerId :: string
  td_taxYear :: "string option"
  td_situationType :: "string option"
  td_submissionDeadline :: "date_param option"
  td_price :: "int option"

definition TaxReturn_create ::
  "(string \<Rightarrow> string + string) \<Rightarrow> taxReturnData \<Rightarrow> string \<Rightarrow> nat \<Rightarrow> db
     \<Rightarrow> (js_error + TaxReturn) \<times> db" where
  "TaxReturn_create date_in taxReturnData newId now store =
     (case bind_date date_in (td_submissionDeadline taxReturnData) of
        Inl code \<Rightarrow> (Inl (DatabaseError code), store)
      | Inr deadline \<Rightarrow>
          (case td_taxYear taxReturnData of
             None \<Rightarrow> (Inl (DatabaseError ''23502''), store)
           | Some taxYear \<Rightarrow>
               if td_customerId taxReturnData \<notin> set (map c_id (customers store))
               then (Inl (DatabaseError ''23503''), store)
               else
                 (let row = \<lparr> tr_id = newId,
                              tr_customer_id = Some (td_customerId taxReturnData),
                              tr_accountant_id = None,
                              tr_tax_year = taxYear,
                              tr_status = ''pending'',
                              tr_situation_type = td_situationType taxReturnData,
                              tr_total_income = None,
                              tr_total_tax_due = None,
                              tr_total_refund = None,
                              tr_submission_deadline = deadline,
                              tr_filed_date = None,
                              tr_hmrc_reference = None,
                              tr_notes = None,
                              tr_price = Some (case td_price taxReturnData of
                                                 None \<Rightarrow> 16900 | Some p \<Rightarrow> p),
                              tr_payment_status = Some ''pending'',
                              tr_created_at = now,
                              tr_updated_at = now \<rparr>
                  in (Inr row, store\<lparr> tax_returns := tax_returns store @ [row] \<rparr>))))"

text \<open>
  \<open>submissionDeadline || new Date('2024-01-31')\<close>. The default is midnight UTC of that
  day, so its local calendar day is the day before in a process that runs west of UTC;
  \<open>utc_offset\<close> is the offset of the process's time zone in minutes east of UTC.
\<close>

definition default_deadline :: "int \<Rightarrow> string" where
  "default_deadline utc_offset = (if utc_offset < 0 then ''2024-01-30'' else ''2024-01-31'')"

definition deadline_param :: "int \<Rightarrow> string option \<Rightarrow> date_param" where
  "deadline_param utc_offset submissionDeadline =
     (case submissionDeadline of
        None \<Rightarrow> LocalDay (default_deadline utc_offset)
      | Some d \<Rightarrow> if d \<noteq> [] then DateText d else LocalDay (default_deadline utc_offset))"

text \<open>
  \<open>POST /\<close>, the final handler. It awaits the two lookups and then the INSERT, and
  other requests run while it waits: the part up to the decision to create and the part
  from the INSERT on are given separately, the handler that nothing interrupts is one
  after the other on the same store.
\<close>

definition post_tax_return_lookup :: "principal \<Rightarrow> string option \<Rightarrow> db \<Rightarrow> outcome + string" where
  "post_tax_return_lookup user taxYear store =
     (case getCustomerIdFromUser store (pr_id user) of
        None \<Rightarrow> Inl (json_error 400 ''Customer profile not found'')
      | Some customerId \<Rightarrow>
          (let existingReturns =
                 findByCustomerId store customerId
                   \<lparr> f_status = None, f_taxYear = taxYear, f_limit = None \<rparr>
           in if length existingReturns > 0
              then Inl (json_error 400 ''Tax return for this year already exists'')
              else Inr customerId))"

definition post_tax_return_insert ::
  "(string \<Rightarrow> string + string) \<Rightarrow> int \<Rightarrow> string \<Rightarrow> string option \<Rightarrow> string option
     \<Rightarrow> string option \<Rightarrow> string \<Rightarrow> nat \<Rightarrow> db \<Rightarrow> outcome \<times> db" where
  "post_tax_return_insert date_in utc_offset customerId taxYear situationType submissionDeadline
       newId now store =
     (let deadline = deadline_param utc_offset submissionDeadline
      in case TaxReturn_create date_in
                \<lparr> td_customerId = customerId, td_taxYear = taxYear,
                  td_situationType = situationType,
                  td_submissionDeadline = Some deadline, td_price = None \<rparr>
                newId now store of
           (Inl e, store') \<Rightarrow> (NextError e, store')
         | (Inr taxReturn, store') \<Rightarrow>
             (Respond 201
                (Obj [(''success'', Bool True),
                      (''message'', Str ''Tax return created successfully''),
                      (''data'', TaxReturn_toJSON taxReturn)]),
              store'))"

definition post_tax_return_handler ::
  "(string \<Rightarrow> string + string) \<Rightarrow> int \<Rightarrow> principal \<Rightarrow> string option \<Rightarrow> string option
     \<Rightarrow> string option \<Rightarrow> string \<Rightarrow> nat \<Rightarrow> db \<Rightarrow> outcome \<times> db" where
  "post_tax_return_handler date_in utc_offset user taxYear situationType submissionDeadline
       newId now store =
     (case post_tax_return_lookup user taxYear store of
        Inl out \<Rightarrow> (out, store)
      | Inr customerId \<Rightarrow>
          post_tax_return_insert date_in utc_offset customerId taxYear situationType
            submissionDeadline newId now store)"

text \<open>
  The validators of the route. \<open>matches(/^\d{4}-\d{2}$/)\<close> on a property that is absent or
  a string (an absent one is validated as the empty string); \<open>isISO8601\<close> belongs to the
  validator package and is a parameter; \<open>optional()\<close> skips an absent property.
\<close>

definition isDigit :: "char \<Rightarrow> bool" where
  "isDigit c = (c \<in> set ''0123456789'')"

definition matchesTaxYear :: "string \<Rightarrow> bool" where
  "matchesTaxYear s =
     (case s of
        [y1, y2, y3, y4, dash, z1, z2] \<Rightarrow>
          isDigit y1 \<and> isDigit y2 \<and> isDigit y3 \<and> isDigit y4 \<and> dash = CHR ''-''
          \<and> isDigit z1 \<and> isDigit z2
      | _ \<Rightarrow> False)"

definition situationTypes :: "string list" where
  "situationTypes = [''self-employed'', ''freelancer'', ''landlord'', ''investor'', ''high-earner'',
                     ''first-time'', ''other'']"

definition post_tax_return_validators ::
  "(string \<Rightarrow> bool) \<Rightarrow> string option \<Rightarrow> string option \<Rightarrow> string option \<Rightarrow> string list" where
  "post_tax_return_validators isISO8601 taxYear situationType submissionDeadline =
     (if matchesTaxYear (case taxYear of None \<Rightarrow> [] | Some s \<Rightarrow> s) then []
      else [''Tax year must be in format YYYY-YY (e.g., 2023-24)''])
     @ isIn situationTypes ''Invalid situation type'' situationType
     @ (case submissionDeadline of
          None \<Rightarrow> []
        | Some d \<Rightarrow> if isISO8601 d then [] else [''Invalid submission deadline format''])"

text \<open>The route: \<open>authenticate, authorize('customer'), [validators], handler\<close>.\<close>

definition post_tax_return_route ::
  "(string \<Rightarrow> jwt_result) \<Rightarrow> (string \<Rightarrow> bool) \<Rightarrow> (string \<Rightarrow> string + string) \<Rightarrow> int
     \<Rightarrow> string option \<Rightarrow> string option \<Rightarrow> string option \<Rightarrow> string option \<Rightarrow> string \<Rightarrow> nat \<Rightarrow> db
     \<Rightarrow> outcome \<times> db" where
  "post_tax_return_route jwt_verify isISO8601 date_in utc_offset authHeader taxYear situationType
       submissionDeadline newId now store =
     (case authenticate jwt_verify store authHeader of
        Inl out \<Rightarrow> (out, store)
      | Inr user \<Rightarrow>
          (case authorize [''customer''] (Some user) of
             Inl out \<Rightarrow> (out, store)
           | Inr ok \<Rightarrow>
               (case handleValidationErrors
                       (post_tax_return_validators isISO8601 taxYear situationType
                          submissionDeadline) of
                  Inl out \<Rightarrow> (out, store)
                | Inr ok' \<Rightarrow>
                    post_tax_return_handler date_in utc_offset user taxYear situationType
                      submissionDeadline newId now store)))"

text \<open>At most one return for a customer and a tax year.\<close>

definition one_return_per_year :: "db \<Rightarrow> bool" where
  "one_return_per_year store =
     distinct (map (\<lambda>r. (tr_customer_id r, tr_tax_year r))
                   (filter (\<lambda>r. tr_customer_id r \<noteq> None) (tax_returns store)))"

section \<open>config/database: transactions\<close>

text \<open>
  The statements that \<open>TaxReturn.delete\<close> and the transaction helper send through the
  client they hold.
\<close>

datatype child_table = T_messages | T_documents | T_expenses | T_income_sources | T_payments

datatype statement =
    BEGIN
  | COMMIT
  | ROLLBACK
  | DELETE_children child_table string
  | DELETE_tax_return string

text \<open>
  A client of the pool: the store every connection sees, and the state of the client's own
  connection, which is idle, inside a transaction block with the block's private copy of the
  store, or inside a block that a failed statement has aborted. The helper takes a client
  from the pool and releases it in whatever state it is left.
\<close>

datatype txn_state = Idle | In_transaction db | In_failed_transaction

record session =
  durable :: db
  txn :: txn_state

text \<open>\<open>DELETE FROM <child table> WHERE tax_return_id = $1\<close>.\<close>

definition delete_children :: "child_table \<Rightarrow> string \<Rightarrow> db \<Rightarrow> db" where
  "delete_children t rid store =
     (case t of
        T_messages \<Rightarrow>
          store\<lparr> messages := filter (\<lambda>r. m_tax_return_id r \<noteq> Some rid) (messages store) \<rparr>
      | T_documents \<Rightarrow>
          store\<lparr> documents := filter (\<lambda>r. d_tax_return_id r \<noteq> Some rid) (documents store) \<rparr>
      | T_expenses \<Rightarrow>
          store\<lparr> expenses := filter (\<lambda>r. ch_tax_return_id r \<noteq> Some rid) (expenses store) \<rparr>
      | T_income_sources \<Rightarrow>
          store\<lparr> income_sources :=
                   filter (\<lambda>r. ch_tax_return_id r \<noteq> Some rid) (income_sources store) \<rparr>
      | T_payments \<Rightarrow>
          store\<lparr> payments := filter (\<lambda>r. ch_tax_return_id r \<noteq> Some rid) (payments store) \<rparr>)"

text \<open>
  \<open>DELETE FROM tax_returns WHERE id = $1\<close>. The five child tables reference the row
  \<open>ON DELETE CASCADE\<close>; \<open>reviews\<close> references it without a cascade, so the statement is
  refused (23503) while a review of the return exists.
\<close>

definition delete_tax_return :: "string \<Rightarrow> db \<Rightarrow> js_error + db" where
  "delete_tax_return rid store =
     (if (\<exists>r \<in> set (tax_returns store). tr_id r = rid)
         \<and> (\<exists>v \<in> set (reviews store). ch_tax_return_id v = Some rid)
      then Inl (DatabaseError ''23503'')
      else Inr ((fold (\<lambda>t. delete_children t rid)
                   [T_income_sources, T_expenses, T_documents, T_messages, T_payments] store)
                \<lparr> tax_returns := filter (\<lambda>r. tr_id r \<noteq> rid) (tax_returns store) \<rparr>))"

text \<open>
  What the database does with a statement that it executes. Outside a block a statement
  works on the store at once. Inside a block it works on the block's copy, which
  \<open>COMMIT\<close> publishes and \<open>ROLLBACK\<close> drops. A statement that the database refuses
  inside a block aborts the block, after which everything but \<open>COMMIT\<close> and
  \<open>ROLLBACK\<close> is refused (25P02) and both of them end the block without publishing.
  A \<open>BEGIN\<close> inside a block only warns.
\<close>

definition execute :: "statement \<Rightarrow> session \<Rightarrow> (js_error + unit) \<times> session" where
  "execute q s =
     (case q of
        BEGIN \<Rightarrow>
          (case txn s of
             Idle \<Rightarrow> (Inr (), s\<lparr> txn := In_transaction (durable s) \<rparr>)
           | In_transaction w \<Rightarrow> (Inr (), s)
           | In_failed_transaction \<Rightarrow> (Inl (DatabaseError ''25P02''), s))
      | COMMIT \<Rightarrow>
          (case txn s of
             Idle \<Rightarrow> (Inr (), s)
           | In_transaction w \<Rightarrow> (Inr (), \<lparr> durable = w, txn = Idle \<rparr>)
           | In_failed_transaction \<Rightarrow> (Inr (), s\<lparr> txn := Idle \<rparr>))
      | ROLLBACK \<Rightarrow> (Inr (), s\<lparr> txn := Idle \<rparr>)
      | DELETE_children t rid \<Rightarrow>
          (case txn s of
             Idle \<Rightarrow> (Inr (), s\<lparr> durable := delete_children t rid (durable s) \<rparr>)
           | In_transaction w \<Rightarrow> (Inr (), s\<lparr> txn := In_transaction (delete_children t rid w) \<rparr>)
           | In_failed_transaction \<Rightarrow> (Inl (DatabaseError ''25P02''), s))
      | DELETE_tax_return rid \<Rightarrow>
          (case txn s of
             Idle \<Rightarrow>
               (case delete_tax_return rid (durable s) of
                  Inl e \<Rightarrow> (Inl e, s)
                | Inr d \<Rightarrow> (Inr (), s\<lparr> durable := d \<rparr>))
           | In_transaction w \<Rightarrow>
               (case delete_tax_return rid w of
                  Inl e \<Rightarrow> (Inl e, s\<lparr> txn := In_failed_transaction \<rparr>)
                | Inr w' \<Rightarrow> (Inr (), s\<lparr> txn := In_transaction w' \<rparr>))
           | In_failed_transaction \<Rightarrow> (Inl (DatabaseError ''25P02''), s)))"

text \<open>
  \<open>client.query\<close>. Any statement may also fail for a reason outside the store (the
  connection, a timeout): \<open>fails\<close> says which ones do. Such a statement has no effect on
  the store. When it is a \<open>ROLLBACK\<close> the block stays as it was; when it is a
  \<open>COMMIT\<close> the block ends unpublished; any other one aborts the block it is in.
\<close>

definition client_query ::
  "(statement \<Rightarrow> bool) \<Rightarrow> statement \<Rightarrow> session \<Rightarrow> (js_error + unit) \<times> session" where
  "client_query fails q s =
     (if fails q
      then (Inl (DatabaseError ''08006''),
            if q = ROLLBACK then s
            else if q = COMMIT then s\<lparr> txn := Idle \<rparr>
            else (case txn s of
                    In_transaction w \<Rightarrow> s\<lparr> txn := In_failed_transaction \<rparr>
                  | _ \<Rightarrow> s))
      else execute q s)"

text \<open>Statements awaited one after the other: the first that throws ends the sequence.\<close>

fun query_all ::
  "(statement \<Rightarrow> bool) \<Rightarrow> statement list \<Rightarrow> session \<Rightarrow> (js_error + unit) \<times> session" where
  "query_all fails [] s = (Inr (), s)"
| "query_all fails (q # qs) s =
     (case client_query fails q s of
        (Inl e, s') \<Rightarrow> (Inl e, s')
      | (Inr ok, s') \<Rightarrow> query_all fails qs s')"

text \<open>
  \<open>transaction(callback)\<close>. \<open>pool.connect()\<close> is awaited before the \<open>try\<close>: when
  it rejects (\<open>connect_error\<close>), its error leaves the helper and no statement is sent.
  Otherwise it hands out a client, and \<open>BEGIN\<close>, the callback and \<open>COMMIT\<close> follow.
  An error thrown by any of them is caught, \<open>ROLLBACK\<close> is sent and the error rethrown;
  when the \<open>ROLLBACK\<close> itself throws, its error is the one that leaves the helper. In
  every case the client is then released: the result is paired with the client as the pool
  gets it back.
\<close>

definition rollback_and_throw ::
  "(statement \<Rightarrow> bool) \<Rightarrow> js_error \<Rightarrow> session \<Rightarrow> (js_error + 'a) \<times> session" where
  "rollback_and_throw fails error s =
     (case client_query fails ROLLBACK s of
        (Inl error', s') \<Rightarrow> (Inl error', s')
      | (Inr ok, s') \<Rightarrow> (Inl error, s'))"

definition transaction ::
  "(statement \<Rightarrow> bool) \<Rightarrow> js_error option \<Rightarrow> (session \<Rightarrow> (js_error + 'a) \<times> session)
     \<Rightarrow> session \<Rightarrow> (js_error + 'a) \<times> session" where
  "transaction fails connect_error callback client =
     (case connect_error of
        Some error \<Rightarrow> (Inl error, client)
      | None \<Rightarrow>
          (case client_query fails BEGIN client of
             (Inl error, s1) \<Rightarrow> rollback_and_throw fails error s1
           | (Inr ok, s1) \<Rightarrow>
               (case callback s1 of
                  (Inl error, s2) \<Rightarrow> rollback_and_throw fails error s2
                | (Inr result, s2) \<Rightarrow>
                    (case client_query fails COMMIT s2 of
                       (Inl error, s3) \<Rightarrow> rollback_and_throw fails error s3
                     | (Inr ok', s3) \<Rightarrow> (Inr result, s3)))))"

text \<open>\<open>TaxReturn.delete\<close>: "Delete tax return (and related data)".\<close>

definition delete_statements :: "string \<Rightarrow> statement list" where
  "delete_statements rid =
     [DELETE_children T_messages rid,
      DELETE_children T_documents rid,
      DELETE_children T_expenses rid,
      DELETE_children T_income_sources rid,
      DELETE_children T_payments rid,
      DELETE_tax_return rid]"

definition TaxReturn_delete ::
  "(statement \<Rightarrow> bool) \<Rightarrow> js_error option \<Rightarrow> TaxReturn \<Rightarrow> session
     \<Rightarrow> (js_error + bool) \<times> session" where
  "TaxReturn_delete fails connect_error this client =
     transaction fails connect_error
       (\<lambda>client. case query_all fails (delete_statements (tr_id this)) client of
                    (Inl e, client') \<Rightarrow> (Inl e, client')
                  | (Inr ok, client') \<Rightarrow> (Inr True, client'))
       client"

text \<open>The store without a return and without the rows of its five child tables.\<close>

definition without_return :: "string \<Rightarrow> db \<Rightarrow> db" where
  "without_return rid store =
     store\<lparr> tax_returns := filter (\<lambda>r. tr_id r \<noteq> rid) (tax_returns store),
            messages := filter (\<lambda>r. m_tax_return_id r \<noteq> Some rid) (messages store),
            documents := filter (\<lambda>r. d_tax_return_id r \<noteq> Some rid) (documents store),
            expenses := filter (\<lambda>r. ch_tax_return_id r \<noteq> Some rid) (expenses store),
            income_sources := filter (\<lambda>r. ch_tax_return_id r \<noteq> Some rid) (income_sources store),
            payments := filter (\<lambda>r. ch_tax_return_id r \<noteq> Some rid) (payments store) \<rparr>"

definition review_blocks :: "string \<Rightarrow> db \<Rightarrow> bool" where
  "review_blocks rid store =
     ((\<exists>r \<in> set (tax_returns store). tr_id r = rid)
      \<and> (\<exists>v \<in> set (reviews store). ch_tax_return_id v = Some rid))"

section \<open>routes/taxReturns: calculations, filing and deletion\<close>

text \<open>
  \<open>updateCalculations\<close>: \<open>SET total_income = $1, total_tax_due = $2, total_refund = $3\<close>.
  An amount is absent (NULL) or what the \<open>DECIMAL(12,2)\<close> column holds of it, in pence;
  the column has room for ten digits before the point and an amount beyond that is refused
  (22003).
\<close>

record calculationData =
  cd_totalIncome :: "int option"
  cd_totalTaxDue :: "int option"
  cd_totalRefund :: "int option"

definition decimal_12_2 :: "int option \<Rightarrow> bool" where
  "decimal_12_2 amount = (case amount of None \<Rightarrow> True | Some v \<Rightarrow> \<bar>v\<bar> < 10 ^ 12)"

definition updateCalculations ::
  "TaxReturn \<Rightarrow> calculationData \<Rightarrow> nat \<Rightarrow> db \<Rightarrow> (js_error + TaxReturn) \<times> db" where
  "updateCalculations this calculationData now store =
     (if \<not> (decimal_12_2 (cd_totalIncome calculationData)
             \<and> decimal_12_2 (cd_totalTaxDue calculationData)
             \<and> decimal_12_2 (cd_totalRefund calculationData))
      then (Inl (DatabaseError ''22003''), store)
      else update_tax_returns
             (\<lambda>r. r\<lparr> tr_total_income := cd_totalIncome calculationData,
                      tr_total_tax_due := cd_totalTaxDue calculationData,
                      tr_total_refund := cd_totalRefund calculationData \<rparr>)
             (tr_id this) now store)"

text \<open>
  \<open>markAsFiled\<close>: \<open>SET status = 'filed', filed_date = CURRENT_TIMESTAMP,
  hmrc_reference = $1\<close>. The column is \<open>VARCHAR(100)\<close>: a longer reference is refused
  (22001) unless only spaces go beyond the hundredth character, which are cut.
\<close>

definition varchar_100 :: "string option \<Rightarrow> string + string option" where
  "varchar_100 v =
     (case v of
        None \<Rightarrow> Inr None
      | Some s \<Rightarrow>
          if length s \<le> 100 then Inr (Some s)
          else if list_all (\<lambda>c. c = CHR '' '') (drop 100 s) then Inr (Some (take 100 s))
          else Inl ''22001'')"

definition markAsFiled ::
  "TaxReturn \<Rightarrow> string option \<Rightarrow> nat \<Rightarrow> db \<Rightarrow> (js_error + TaxReturn) \<times> db" where
  "markAsFiled this hmrcReference now store =
     (case varchar_100 hmrcReference of
        Inl code \<Rightarrow> (Inl (DatabaseError code), store)
      | Inr reference \<Rightarrow>
          update_tax_returns
            (\<lambda>r. r\<lparr> tr_status := ''filed'', tr_filed_date := Some now,
                     tr_hmrc_reference := reference \<rparr>)
            (tr_id this) now store)"

text \<open>\<open>PUT /:id/calculations\<close>, the final handler.\<close>

definition put_calculations_handler ::
  "principal \<Rightarrow> string \<Rightarrow> calculationData \<Rightarrow> nat \<Rightarrow> db \<Rightarrow> outcome \<times> db" where
  "put_calculations_handler user rid body now store =
     (case TaxReturn_findById store rid of
        None \<Rightarrow> (json_error 404 ''Tax return not found'', store)
      | Some taxReturn \<Rightarrow>
          if pr_role user = ''accountant''
             \<and> of_text (tr_accountant_id taxReturn) \<noteq> accountantIdOfUser store (pr_id user)
          then (json_error 403 ''Access denied'', store)
          else
            (case updateCalculations taxReturn body now store of
               (Inl e, store') \<Rightarrow> (NextError e, store')
             | (Inr updatedTaxReturn, store') \<Rightarrow>
                 (Respond 200
                    (Obj [(''success'', Bool True),
                          (''message'', Str ''Tax calculations updated successfully''),
                          (''data'', TaxReturn_toJSON updatedTaxReturn)]),
                  store')))"

text \<open>\<open>POST /:id/file\<close>, the final handler.\<close>

definition post_file_handler ::
  "principal \<Rightarrow> string \<Rightarrow> string option \<Rightarrow> nat \<Rightarrow> db \<Rightarrow> outcome \<times> db" where
  "post_file_handler user rid hmrcReference now store =
     (case TaxReturn_findById store rid of
        None \<Rightarrow> (json_error 404 ''Tax return not found'', store)
      | Some taxReturn \<Rightarrow>
          if pr_role user = ''accountant''
             \<and> of_text (tr_accountant_id taxReturn) \<noteq> accountantIdOfUser store (pr_id user)
          then (json_error 403 ''Access denied'', store)
          else
            (case markAsFiled taxReturn hmrcReference now store of
               (Inl e, store') \<Rightarrow> (NextError e, store')
             | (Inr updatedTaxReturn, store') \<Rightarrow>
                 (Respond 200
                    (Obj [(''success'', Bool True),
                          (''message'', Str ''Tax return filed successfully''),
                          (''data'', TaxReturn_toJSON updatedTaxReturn)]),
                  store')))"

text \<open>
  \<open>DELETE /:id\<close>, the final handler: the lookup reads the store, the deletion runs on
  the client that the pool hands out, which goes back to the pool afterwards.
\<close>

definition delete_tax_return_handler ::
  "(statement \<Rightarrow> bool) \<Rightarrow> js_error option \<Rightarrow> string \<Rightarrow> session \<Rightarrow> outcome \<times> session" where
  "delete_tax_return_handler fails connect_error rid client =
     (case TaxReturn_findById (durable client) rid of
        None \<Rightarrow> (json_error 404 ''Tax return not found'', client)
      | Some taxReturn \<Rightarrow>
          (case TaxReturn_delete fails connect_error taxReturn client of
             (Inl e, client') \<Rightarrow> (NextError e, client')
           | (Inr ok, client') \<Rightarrow>
               (Respond 200
                  (Obj [(''success'', Bool True),
                        (''message'', Str ''Tax return deleted successfully'')]),
                client')))"

section \<open>Deletion is all or nothing\<close>

lemma delete_children_frame [simp]:
  "tax_returns (delete_children t rid store) = tax_returns store"
  "reviews (delete_children t rid store) = reviews store"
  "users (delete_children t rid store) = users store"
  "customers (delete_children t rid store) = customers store"
  "accountants (delete_children t rid store) = accountants store"
  by (cases t; simp add: delete_children_def)+

lemma delete_children_tables:
  "messages (delete_children t rid store) =
     (if t = T_messages then filter (\<lambda>r. m_tax_return_id r \<noteq> Some rid) (messages store)
      else messages store)"
  "documents (delete_children t rid store) =
     (if t = T_documents then filter (\<lambda>r. d_tax_return_id r \<noteq> Some rid) (documents store)
      else documents store)"
  "expenses (delete_children t rid store) =
     (if t = T_expenses then filter (\<lambda>r. ch_tax_return_id r \<noteq> Some rid) (expenses store)
      else expenses store)"
  "income_sources (delete_children t rid store) =
     (if t = T_income_sources
      then filter (\<lambda>r. ch_tax_return_id r \<noteq> Some rid) (income_sources store)
      else income_sources store)"
  "payments (delete_children t rid store) =
     (if t = T_payments then filter (\<lambda>r. ch_tax_return_id r \<noteq> Some rid) (payments store)
      else payments store)"
  by (cases t; simp add: delete_children_def)+

definition children_deleted :: "string \<Rightarrow> db \<Rightarrow> db" where
  "children_deleted rid store =
     delete_children T_payments rid
       (delete_children T_income_sources rid
         (delete_children T_expenses rid
           (delete_children T_documents rid
             (delete_children T_messages rid store))))"

lemma client_query_failed:
  "fails q \<Longrightarrow> \<exists>s'. client_query fails q s = (Inl (DatabaseError ''08006''), s')"
  by (simp add: client_query_def)

lemma client_query_children:
  "\<not> fails (DELETE_children t rid) \<Longrightarrow>
     client_query fails (DELETE_children t rid) \<lparr> durable = d, txn = In_transaction w \<rparr> =
       (Inr (), \<lparr> durable = d, txn = In_transaction (delete_children t rid w) \<rparr>)"
  by (simp add: client_query_def execute_def)

lemma client_query_return:
  "\<not> fails (DELETE_tax_return rid) \<Longrightarrow>
     client_query fails (DELETE_tax_return rid) \<lparr> durable = d, txn = In_transaction w \<rparr> =
       (case delete_tax_return rid w of
          Inl e \<Rightarrow> (Inl e, \<lparr> durable = d, txn = In_failed_transaction \<rparr>)
        | Inr w' \<Rightarrow> (Inr (), \<lparr> durable = d, txn = In_transaction w' \<rparr>))"
  by (simp add: client_query_def execute_def split: sum.splits)

text \<open>
  Inside a block a delete statement leaves the store of the other connections alone: it
  either goes through on the block's copy or aborts the block.
\<close>

lemma client_query_in_block:
  assumes "q = DELETE_children t rid \<or> q = DELETE_tax_return rid"
  shows "(\<exists>e. client_query fails q \<lparr> durable = d, txn = In_transaction w \<rparr> =
                (Inl e, \<lparr> durable = d, txn = In_failed_transaction \<rparr>))
         \<or> (\<exists>w'. client_query fails q \<lparr> durable = d, txn = In_transaction w \<rparr> =
                (Inr (), \<lparr> durable = d, txn = In_transaction w' \<rparr>))"
proof (cases "fails q")
  case True
  then show ?thesis using assms by (auto simp: client_query_def)
next
  case False
  then show ?thesis
    using assms
    by (auto simp: client_query_children client_query_return split: sum.splits)
qed

lemma query_all_in_block:
  assumes "\<forall>q \<in> set qs. \<exists>t rid. q = DELETE_children t rid \<or> q = DELETE_tax_return rid"
  shows "(\<exists>e. query_all fails qs \<lparr> durable = d, txn = In_transaction w \<rparr> =
                (Inl e, \<lparr> durable = d, txn = In_failed_transaction \<rparr>))
         \<or> (\<exists>w'. query_all fails qs \<lparr> durable = d, txn = In_transaction w \<rparr> =
                (Inr (), \<lparr> durable = d, txn = In_transaction w' \<rparr>))"
  using assms
proof (induction qs arbitrary: w)
  case Nil
  then show ?case by simp
next
  case (Cons q qs)
  then have "\<exists>t rid. q = DELETE_children t rid \<or> q = DELETE_tax_return rid"
    by simp
  then have step:
    "(\<exists>e. client_query fails q \<lparr> durable = d, txn = In_transaction w \<rparr> =
            (Inl e, \<lparr> durable = d, txn = In_failed_transaction \<rparr>))
     \<or> (\<exists>w'. client_query fails q \<lparr> durable = d, txn = In_transaction w \<rparr> =
            (Inr (), \<lparr> durable = d, txn = In_transaction w' \<rparr>))"
    using client_query_in_block by blast
  have rest: "\<forall>q \<in> set qs. \<exists>t rid. q = DELETE_children t rid \<or> q = DELETE_tax_return rid"
    using Cons.prems by simp
  from step show ?case
  proof (elim disjE exE)
    fix e
    assume "client_query fails q \<lparr> durable = d, txn = In_transaction w \<rparr> =
              (Inl e, \<lparr> durable = d, txn = In_failed_transaction \<rparr>)"
    then show ?thesis by simp
  next
    fix w'
    assume "client_query fails q \<lparr> durable = d, txn = In_transaction w \<rparr> =
              (Inr (), \<lparr> durable = d, txn = In_transaction w' \<rparr>)"
    then show ?thesis using Cons.IH [OF rest, of w'] by simp
  qed
qed

lemma rollback_and_throw_result:
  "rollback_and_throw fails error s =
     (if fails ROLLBACK then (Inl (DatabaseError ''08006''), s)
      else (Inl error, s\<lparr> txn := Idle \<rparr>))"
  by (simp add: rollback_and_throw_def client_query_def execute_def)

lemma review_blocks_children [simp]:
  "review_blocks rid (delete_children t rid' store) = review_blocks rid store"
  by (simp add: review_blocks_def)

lemma delete_tax_return_after_children:
  "delete_tax_return rid (children_deleted rid store) =
     (if review_blocks rid store then Inl (DatabaseError ''23503'')
      else Inr (without_return rid store))"
proof -
  have b: "review_blocks rid (children_deleted rid store) = review_blocks rid store"
    by (simp add: children_deleted_def)
  have e: "(fold (\<lambda>t. delete_children t rid)
              [T_income_sources, T_expenses, T_documents, T_messages, T_payments]
              (children_deleted rid store))
             \<lparr> tax_returns := filter (\<lambda>r. tr_id r \<noteq> rid)
                                (tax_returns (children_deleted rid store)) \<rparr>
           = without_return rid store"
    by (rule db.equality)
       (simp_all add: children_deleted_def delete_children_tables without_return_def)
  show ?thesis
    using b e by (simp add: delete_tax_return_def review_blocks_def)
qed

lemma query_all_failing:
  assumes "\<exists>q \<in> set qs. fails q"
  shows "\<exists>e. fst (query_all fails qs s) = Inl e"
  using assms
proof (induction qs arbitrary: s)
  case Nil
  then show ?case by simp
next
  case (Cons q qs)
  show ?case
  proof (cases "client_query fails q s")
    case (Pair r s')
    show ?thesis
    proof (cases r)
      case (Inl e)
      then show ?thesis using Pair by simp
    next
      case (Inr ok)
      then have "\<not> fails q"
        using Pair client_query_failed [of fails q s] by auto
      then have "\<exists>q \<in> set qs. fails q"
        using Cons.prems by simp
      then show ?thesis
        using Cons.IH [of s'] Pair Inr by simp
    qed
  qed
qed

lemma delete_statements_run:
  assumes "\<forall>q \<in> set (delete_statements rid). \<not> fails q"
  shows "query_all fails (delete_statements rid) \<lparr> durable = d, txn = In_transaction w \<rparr> =
           (if review_blocks rid w
            then (Inl (DatabaseError ''23503''), \<lparr> durable = d, txn = In_failed_transaction \<rparr>)
            else (Inr (), \<lparr> durable = d, txn = In_transaction (without_return rid w) \<rparr>))"
proof -
  have f: "\<not> fails (DELETE_children T_messages rid)" "\<not> fails (DELETE_children T_documents rid)"
    "\<not> fails (DELETE_children T_expenses rid)" "\<not> fails (DELETE_children T_income_sources rid)"
    "\<not> fails (DELETE_children T_payments rid)" "\<not> fails (DELETE_tax_return rid)"
    using assms by (simp_all add: delete_statements_def)
  have "query_all fails (delete_statements rid) \<lparr> durable = d, txn = In_transaction w \<rparr> =
          query_all fails [DELETE_tax_return rid]
            \<lparr> durable = d, txn = In_transaction (children_deleted rid w) \<rparr>"
    by (simp add: delete_statements_def client_query_children f children_deleted_def)
  then show ?thesis
    by (simp add: client_query_return f delete_tax_return_after_children)
qed

lemma delete_statements_kind:
  "\<forall>q \<in> set (delete_statements rid).
     \<exists>t rid'. q = DELETE_children t rid' \<or> q = DELETE_tax_return rid'"
  by (simp add: delete_statements_def)

text \<open>The rows that still name a return: its own row and those of its five child tables.\<close>

definition remaining :: "string \<Rightarrow> db \<Rightarrow> nat" where
  "remaining rid store =
     length (filter (\<lambda>r. tr_id r = rid) (tax_returns store))
     + length (filter (\<lambda>r. m_tax_return_id r = Some rid) (messages store))
     + length (filter (\<lambda>r. d_tax_return_id r = Some rid) (documents store))
     + length (filter (\<lambda>r. ch_tax_return_id r = Some rid) (expenses store))
     + length (filter (\<lambda>r. ch_tax_return_id r = Some rid) (income_sources store))
     + length (filter (\<lambda>r. ch_tax_return_id r = Some rid) (payments store))"

lemma remaining_without_return: "remaining rid (without_return rid store) = 0"
  by (simp add: remaining_def without_return_def)

text \<open>
  The delete statements of the callback, run in the block that \<open>BEGIN\<close> has opened on an
  idle client.
\<close>

lemma delete_callback_result:
  "if (\<exists>q \<in> set (delete_statements rid). fails q) \<or> review_blocks rid d
   then \<exists>e. query_all fails (delete_statements rid) \<lparr> durable = d, txn = In_transaction d \<rparr> =
          (Inl e, \<lparr> durable = d, txn = In_failed_transaction \<rparr>)
   else query_all fails (delete_statements rid) \<lparr> durable = d, txn = In_transaction d \<rparr> =
          (Inr (), \<lparr> durable = d, txn = In_transaction (without_return rid d) \<rparr>)"
proof (cases "\<exists>q \<in> set (delete_statements rid). fails q")
  case True
  then have "\<exists>e. fst (query_all fails (delete_statements rid)
                       \<lparr> durable = d, txn = In_transaction d \<rparr>) = Inl e"
    by (rule query_all_failing)
  moreover have
    "(\<exists>e. query_all fails (delete_statements rid) \<lparr> durable = d, txn = In_transaction d \<rparr> =
            (Inl e, \<lparr> durable = d, txn = In_failed_transaction \<rparr>))
     \<or> (\<exists>w'. query_all fails (delete_statements rid) \<lparr> durable = d, txn = In_transaction d \<rparr> =
            (Inr (), \<lparr> durable = d, txn = In_transaction w' \<rparr>))"
    by (rule query_all_in_block [OF delete_statements_kind])
  ultimately show ?thesis using True by auto
next
  case False
  then have "\<forall>q \<in> set (delete_statements rid). \<not> fails q" by simp
  from delete_statements_run [OF this, of d d] show ?thesis using False by simp
qed

text \<open>
  \<open>TaxReturn.delete\<close> on an idle client: the result, the store and the state in which
  the client goes back to the pool.
\<close>

text \<open>
  \<open>TaxReturn.delete\<close> on an idle client: the result, the store and the state in which
  the client goes back to the pool.
\<close>

lemma TaxReturn_delete_idle:
  "if (\<exists>q \<in> set (BEGIN # delete_statements (tr_id this) @ [COMMIT]). fails q)
      \<or> review_blocks (tr_id this) d
   then \<exists>e. TaxReturn_delete fails None this \<lparr> durable = d, txn = Idle \<rparr> =
          (Inl e,
           \<lparr> durable = d,
             txn = (if fails ROLLBACK \<and> \<not> fails BEGIN
                       \<and> ((\<exists>q \<in> set (delete_statements (tr_id this)). fails q)
                          \<or> review_blocks (tr_id this) d)
                    then In_failed_transaction else Idle) \<rparr>)
   else TaxReturn_delete fails None this \<lparr> durable = d, txn = Idle \<rparr> =
          (Inr True, \<lparr> durable = without_return (tr_id this) d, txn = Idle \<rparr>)"
proof -
  let ?rid = "tr_id this"
  let ?s0 = "\<lparr> durable = d, txn = Idle \<rparr>"
  let ?s1 = "\<lparr> durable = d, txn = In_transaction d \<rparr>"
  let ?sf = "\<lparr> durable = d, txn = In_failed_transaction \<rparr>"
  let ?D = "(\<exists>q \<in> set (delete_statements ?rid). fails q) \<or> review_blocks ?rid d"
  show ?thesis
  proof (cases "fails BEGIN")
    case True
    then have "client_query fails BEGIN ?s0 = (Inl (DatabaseError ''08006''), ?s0)"
      by (simp add: client_query_def)
    then have "TaxReturn_delete fails None this ?s0 =
                 rollback_and_throw fails (DatabaseError ''08006'') ?s0"
      by (simp add: TaxReturn_delete_def transaction_def)
    then have "\<exists>e. TaxReturn_delete fails None this ?s0 = (Inl e, ?s0)"
      by (simp add: rollback_and_throw_result)
    then show ?thesis
      using True by simp
  next
    case noB: False
    then have b: "client_query fails BEGIN ?s0 = (Inr (), ?s1)"
      by (simp add: client_query_def execute_def)
    note run = delete_callback_result [where fails = fails and rid = ?rid and d = d]
    show ?thesis
    proof (cases ?D)
      case True
      then have "\<exists>e. query_all fails (delete_statements ?rid) ?s1 = (Inl e, ?sf)"
        using run by simp
      then have "\<exists>e. TaxReturn_delete fails None this ?s0 = rollback_and_throw fails e ?sf"
        using b by (auto simp: TaxReturn_delete_def transaction_def)
      then have "\<exists>e. TaxReturn_delete fails None this ?s0 =
                   (Inl e, \<lparr> durable = d,
                             txn = (if fails ROLLBACK then In_failed_transaction else Idle) \<rparr>)"
        by (auto simp: rollback_and_throw_result)
      then show ?thesis
        using True noB by simp
    next
      case noD: False
      then have cb: "query_all fails (delete_statements ?rid) ?s1 =
                       (Inr (), \<lparr> durable = d, txn = In_transaction (without_return ?rid d) \<rparr>)"
        using run by simp
      show ?thesis
      proof (cases "fails COMMIT")
        case True
        then have "client_query fails COMMIT
                     \<lparr> durable = d, txn = In_transaction (without_return ?rid d) \<rparr> =
                   (Inl (DatabaseError ''08006''), ?s0)"
          by (simp add: client_query_def)
        then have "TaxReturn_delete fails None this ?s0 =
                     rollback_and_throw fails (DatabaseError ''08006'') ?s0"
          using b cb by (simp add: TaxReturn_delete_def transaction_def)
        then have "\<exists>e. TaxReturn_delete fails None this ?s0 = (Inl e, ?s0)"
          by (simp add: rollback_and_throw_result)
        then show ?thesis
          using True noD by simp
      next
        case noC: False
        then have "client_query fails COMMIT
                     \<lparr> durable = d, txn = In_transaction (without_return ?rid d) \<rparr> =
                   (Inr (), \<lparr> durable = without_return ?rid d, txn = Idle \<rparr>)"
          by (simp add: client_query_def execute_def)
        then have "TaxReturn_delete fails None this ?s0 =
                     (Inr True, \<lparr> durable = without_return ?rid d, txn = Idle \<rparr>)"
          using b cb by (simp add: TaxReturn_delete_def transaction_def)
        then show ?thesis using noB noD noC by simp
      qed
    qed
  qed
qed

lemma TaxReturn_delete_unconnected:
  "TaxReturn_delete fails (Some error) this client = (Inl error, client)"
  by (simp add: TaxReturn_delete_def transaction_def)

lemma TaxReturn_delete_cases:
  assumes "txn client = Idle"
  shows
  "if connect_error \<noteq> None
      \<or> (\<exists>q \<in> set (BEGIN # delete_statements (tr_id this) @ [COMMIT]). fails q)
      \<or> review_blocks (tr_id this) (durable client)
   then \<exists>e. TaxReturn_delete fails connect_error this client =
          (Inl e,
           \<lparr> durable = durable client,
             txn = (if fails ROLLBACK \<and> connect_error = None \<and> \<not> fails BEGIN
                       \<and> ((\<exists>q \<in> set (delete_statements (tr_id this)). fails q)
                          \<or> review_blocks (tr_id this) (durable client))
                    then In_failed_transaction else Idle) \<rparr>)
   else TaxReturn_delete fails connect_error this client =
          (Inr True, \<lparr> durable = without_return (tr_id this) (durable client), txn = Idle \<rparr>)"
proof (cases client)
  case (fields d t)
  then have c: "client = \<lparr> durable = d, txn = Idle \<rparr>"
    using assms by simp
  show ?thesis
  proof (cases connect_error)
    case None
    then show ?thesis
      using c TaxReturn_delete_idle [of this fails d] by simp
  next
    case (Some error)
    then show ?thesis
      using c by (simp add: TaxReturn_delete_unconnected)
  qed
qed

text \<open>
  A client that was released inside an aborted block: its \<open>BEGIN\<close> is refused and the
  \<open>ROLLBACK\<close> of the helper ends the old block. Nothing is deleted.
\<close>

lemma TaxReturn_delete_aborted:
  "\<exists>e. TaxReturn_delete fails None this \<lparr> durable = d, txn = In_failed_transaction \<rparr> =
         (Inl e, \<lparr> durable = d,
                   txn = (if fails ROLLBACK then In_failed_transaction else Idle) \<rparr>)"
proof -
  let ?sf = "\<lparr> durable = d, txn = In_failed_transaction \<rparr>"
  have "\<exists>e. client_query fails BEGIN ?sf = (Inl e, ?sf)"
    by (simp add: client_query_def execute_def)
  then have "\<exists>e. TaxReturn_delete fails None this ?sf = rollback_and_throw fails e ?sf"
    by (auto simp: TaxReturn_delete_def transaction_def)
  then show ?thesis
    by (auto simp: rollback_and_throw_result)
qed

text \<open>
  C2. \<open>TaxReturn.delete\<close> runs its six deletions inside one transaction, on a client
  that the pool hands out idle. When the pool gives a client, no statement of the
  transaction fails and no review holds the return back, it returns \<open>true\<close>, the client goes back idle and the store is
  the old one without the \<open>tax_returns\<close> row and without every row of \<open>messages\<close>,
  \<open>documents\<close>, \<open>expenses\<close>, \<open>income_sources\<close> and \<open>payments\<close> that references
  it, so no such row remains. When the pool gives no client, or any statement fails, or
  the last deletion is refused, an error is thrown and the store is exactly the store before the call: no table has changed.
  The block is then ended by the \<open>ROLLBACK\<close> of the helper and the client goes back idle;
  only when that \<open>ROLLBACK\<close> fails as well, after a deletion has aborted the block, is
  the client released inside the aborted block, which can no longer publish anything.
\<close>

theorem delete_all_or_nothing:
  assumes "txn client = Idle"
  shows
  "(if connect_error \<noteq> None
       \<or> (\<exists>q \<in> set (BEGIN # delete_statements (tr_id this) @ [COMMIT]). fails q)
       \<or> review_blocks (tr_id this) (durable client)
    then \<exists>e. TaxReturn_delete fails connect_error this client =
           (Inl e,
            \<lparr> durable = durable client,
              txn = (if fails ROLLBACK \<and> connect_error = None \<and> \<not> fails BEGIN
                        \<and> ((\<exists>q \<in> set (delete_statements (tr_id this)). fails q)
                           \<or> review_blocks (tr_id this) (durable client))
                     then In_failed_transaction else Idle) \<rparr>)
    else TaxReturn_delete fails connect_error this client =
           (Inr True, \<lparr> durable = without_return (tr_id this) (durable client), txn = Idle \<rparr>))
   \<and> remaining (tr_id this) (without_return (tr_id this) (durable client)) = 0"
  using TaxReturn_delete_cases [OF assms, of connect_error this fails]
    remaining_without_return [of "tr_id this" "durable client"]
  by simp

text \<open>The sample store with rows in every child table of \<open>r-1\<close>, and a document of \<open>r-2\<close>.\<close>

definition sample_child :: "string \<Rightarrow> string \<Rightarrow> child_row" where
  "sample_child cid rid =
     \<lparr> ch_id = cid, ch_tax_return_id = Some rid, ch_order = 3, ch_columns = [] \<rparr>"

definition sample_document :: "string \<Rightarrow> string \<Rightarrow> document_row" where
  "sample_document did rid =
     \<lparr> d_id = did, d_tax_return_id = Some rid, d_uploaded_by = Some ''u-cust'',
       d_document_type = ''p60'', d_original_name = ''p60.pdf'',
       d_file_path = ''uploads/documents-1-1.pdf'', d_file_size = Some 1024,
       d_mime_type = Some ''application/pdf'', d_created_at = 3 \<rparr>"

definition sample_children :: db where
  "sample_children =
     sample_store\<lparr>
       messages := [\<lparr> m_id = ''m-1'', m_tax_return_id = Some ''r-1'', m_sender_id = Some ''u-cust'',
                      m_recipient_id = Some ''u-acc'', m_message = ''hello'', m_created_at = 3 \<rparr>],
       documents := [sample_document ''d-1'' ''r-1'', sample_document ''d-2'' ''r-2''],
       expenses := [sample_child ''e-1'' ''r-1''],
       income_sources := [sample_child ''i-1'' ''r-1''],
       payments := [sample_child ''p-1'' ''r-1''] \<rparr>"

theorem delete_all_or_nothing_witness:
  "remaining ''r-1'' sample_children = 6
   \<and> TaxReturn_delete (\<lambda>q. False) None (sample_return ''r-1'' ''c-1'' ''2023-24'' ''pending'')
        \<lparr> durable = sample_children, txn = Idle \<rparr> =
       (Inr True,
        \<lparr> durable =
            sample_store\<lparr> tax_returns := [sample_return ''r-2'' ''c-1'' ''2022-23'' ''filed''],
                           documents := [sample_document ''d-2'' ''r-2''] \<rparr>,
          txn = Idle \<rparr>)
   \<and> (\<exists>e. TaxReturn_delete (\<lambda>q. q = DELETE_children T_expenses ''r-1'') None
               (sample_return ''r-1'' ''c-1'' ''2023-24'' ''pending'')
               \<lparr> durable = sample_children, txn = Idle \<rparr> =
            (Inl e, \<lparr> durable = sample_children, txn = Idle \<rparr>))
   \<and> (\<exists>e. TaxReturn_delete (\<lambda>q. q = DELETE_children T_expenses ''r-1'' \<or> q = ROLLBACK) None
               (sample_return ''r-1'' ''c-1'' ''2023-24'' ''pending'')
               \<lparr> durable = sample_children, txn = Idle \<rparr> =
            (Inl e, \<lparr> durable = sample_children, txn = In_failed_transaction \<rparr>))
   \<and> (\<exists>e. TaxReturn_delete (\<lambda>q. False) (Some (Error ''timeout exceeded when trying to connect''))
               (sample_return ''r-1'' ''c-1'' ''2023-24'' ''pending'')
               \<lparr> durable = sample_children, txn = Idle \<rparr> =
            (Inl e, \<lparr> durable = sample_children, txn = Idle \<rparr>))
   \<and> (\<exists>e. TaxReturn_delete (\<lambda>q. False) None
               (sample_return ''r-1'' ''c-1'' ''2023-24'' ''pending'')
               \<lparr> durable = sample_children\<lparr> reviews := [sample_child ''v-1'' ''r-1''] \<rparr>,
                 txn = Idle \<rparr> =
            (Inl e, \<lparr> durable = sample_children\<lparr> reviews := [sample_child ''v-1'' ''r-1''] \<rparr>,
                      txn = Idle \<rparr>))"
proof -
  let ?ret = "sample_return ''r-1'' ''c-1'' ''2023-24'' ''pending''"
  let ?blocked = "sample_children\<lparr> reviews := [sample_child ''v-1'' ''r-1''] \<rparr>"
  have i: "tr_id ?ret = ''r-1''"
    by (simp add: sample_return_def)
  have n: "\<not> review_blocks ''r-1'' sample_children"
    by (simp add: review_blocks_def sample_children_def sample_store_def)
  have y: "review_blocks ''r-1'' ?blocked"
    by (simp add: review_blocks_def sample_children_def sample_store_def sample_child_def
        sample_return_def)
  have w: "without_return ''r-1'' sample_children =
             sample_store\<lparr> tax_returns := [sample_return ''r-2'' ''c-1'' ''2022-23'' ''filed''],
                            documents := [sample_document ''d-2'' ''r-2''] \<rparr>"
    by (simp add: without_return_def sample_children_def sample_store_def sample_child_def
        sample_document_def sample_return_def)
  have r: "remaining ''r-1'' sample_children = 6"
    by (simp add: remaining_def sample_children_def sample_store_def sample_child_def
        sample_document_def sample_return_def)
  have idle: "txn \<lparr> durable = d, txn = Idle \<rparr> = Idle" for d :: db
    by simp
  show ?thesis
    using delete_all_or_nothing [OF idle [of sample_children], where fails = "\<lambda>q. False"
        and this = ?ret and connect_error = None]
      delete_all_or_nothing [OF idle [of sample_children], where fails = "\<lambda>q. q = DELETE_children T_expenses ''r-1''"
        and this = ?ret and connect_error = None]
      delete_all_or_nothing [OF idle [of sample_children],
        where fails = "\<lambda>q. q = DELETE_children T_expenses ''r-1'' \<or> q = ROLLBACK"
        and this = ?ret and connect_error = None]
      delete_all_or_nothing [OF idle [of sample_children], where fails = "\<lambda>q. False"
        and this = ?ret
        and connect_error = "Some (Error ''timeout exceeded when trying to connect'')"]
      delete_all_or_nothing [OF idle [of ?blocked], where fails = "\<lambda>q. False"
        and this = ?ret and connect_error = None]
      n y w r
    by (simp add: i delete_statements_def)
qed

section \<open>One return per customer and tax year\<close>

lemma matchesTaxYear_nonempty: "matchesTaxYear s \<Longrightarrow> s \<noteq> []"
  by (auto simp: matchesTaxYear_def)

lemma findByCustomerId_year_length:
  assumes "taxYear \<noteq> []"
  shows "length (findByCustomerId store customerId
                   \<lparr> f_status = None, f_taxYear = Some taxYear, f_limit = None \<rparr>) =
         length (filter (\<lambda>r. tr_customer_id r = Some customerId \<and> tr_tax_year r = taxYear)
                        (tax_returns store))"
proof -
  have "filter (\<lambda>r. Some (tr_tax_year r) = Some taxYear)
          (filter (\<lambda>r. tr_customer_id r = Some customerId) (tax_returns store)) =
        filter (\<lambda>r. tr_customer_id r = Some customerId \<and> tr_tax_year r = taxYear)
          (tax_returns store)"
    by (simp add: conj_commute)
  then show ?thesis
    using assms by (simp add: findByCustomerId_def present_def Let_def)
qed

lemma getCustomerIdFromUser_exists:
  "getCustomerIdFromUser store userId = Some customerId \<Longrightarrow>
     customerId \<in> set (map c_id (customers store))"
  by (auto simp: getCustomerIdFromUser_def split: list.splits if_splits dest!: filter_eq_ConsD)

lemma filter_length_0_iff:
  "length (filter P xs) > 0 \<longleftrightarrow> (\<exists>x \<in> set xs. P x)"
  by (induction xs) auto

text \<open>The row that the handler's INSERT appends, with the deadline as the column holds it.\<close>

definition created_return ::
  "string \<Rightarrow> string \<Rightarrow> string option \<Rightarrow> string option \<Rightarrow> string \<Rightarrow> nat \<Rightarrow> tax_return_row" where
  "created_return customerId taxYear situationType deadline newId now =
     \<lparr> tr_id = newId, tr_customer_id = Some customerId, tr_accountant_id = None,
       tr_tax_year = taxYear, tr_status = ''pending'', tr_situation_type = situationType,
       tr_total_income = None, tr_total_tax_due = None, tr_total_refund = None,
       tr_submission_deadline = deadline,
       tr_filed_date = None, tr_hmrc_reference = None, tr_notes = None,
       tr_price = Some 16900, tr_payment_status = Some ''pending'',
       tr_created_at = now, tr_updated_at = now \<rparr>"

lemma post_tax_return_lookup_valid:
  assumes cust: "getCustomerIdFromUser store (pr_id user) = Some customerId"
    and ty: "taxYear \<noteq> []"
  shows "post_tax_return_lookup user (Some taxYear) store =
         (if \<exists>r \<in> set (tax_returns store).
               tr_customer_id r = Some customerId \<and> tr_tax_year r = taxYear
          then Inl (json_error 400 ''Tax return for this year already exists'')
          else Inr customerId)"
proof -
  have len: "(0 < length (findByCustomerId store customerId
               \<lparr> f_status = None, f_taxYear = Some taxYear, f_limit = None \<rparr>)) =
             (\<exists>r \<in> set (tax_returns store).
               tr_customer_id r = Some customerId \<and> tr_tax_year r = taxYear)"
    by (simp only: findByCustomerId_year_length [OF ty] filter_length_0_iff)
  show ?thesis
    unfolding post_tax_return_lookup_def cust Let_def option.case len ..
qed

lemma post_tax_return_insert_result:
  assumes fk: "customerId \<in> set (map c_id (customers store))"
  shows "post_tax_return_insert date_in utc_offset customerId (Some taxYear) situationType
           submissionDeadline newId now store =
         (case bind_date date_in (Some (deadline_param utc_offset submissionDeadline)) of
            Inl code \<Rightarrow> (NextError (DatabaseError code), store)
          | Inr deadline \<Rightarrow>
              (Respond 201
                 (Obj [(''success'', Bool True),
                       (''message'', Str ''Tax return created successfully''),
                       (''data'', TaxReturn_toJSON
                          (created_return customerId taxYear situationType deadline newId now))]),
               store\<lparr> tax_returns := tax_returns store @
                 [created_return customerId taxYear situationType deadline newId now] \<rparr>))"
  using fk
  by (simp add: post_tax_return_insert_def TaxReturn_create_def created_return_def Let_def
      split: sum.splits)

lemma post_tax_return_handler_valid:
  assumes cust: "getCustomerIdFromUser store (pr_id user) = Some customerId"
    and ty: "taxYear \<noteq> []"
  shows "post_tax_return_handler date_in utc_offset user (Some taxYear) situationType
           submissionDeadline newId now store =
         (if \<exists>r \<in> set (tax_returns store).
               tr_customer_id r = Some customerId \<and> tr_tax_year r = taxYear
          then (json_error 400 ''Tax return for this year already exists'', store)
          else (case bind_date date_in (Some (deadline_param utc_offset submissionDeadline)) of
                  Inl code \<Rightarrow> (NextError (DatabaseError code), store)
                | Inr deadline \<Rightarrow>
                    (Respond 201
                       (Obj [(''success'', Bool True),
                             (''message'', Str ''Tax return created successfully''),
                             (''data'', TaxReturn_toJSON
                                (created_return customerId taxYear situationType deadline
                                   newId now))]),
                     store\<lparr> tax_returns := tax_returns store @
                       [created_return customerId taxYear situationType deadline newId now] \<rparr>)))"
proof -
  have fk: "customerId \<in> set (map c_id (customers store))"
    using cust by (rule getCustomerIdFromUser_exists)
  show ?thesis
  proof (cases "\<exists>r \<in> set (tax_returns store).
                  tr_customer_id r = Some customerId \<and> tr_tax_year r = taxYear")
    case True
    then have "post_tax_return_lookup user (Some taxYear) store =
                 Inl (json_error 400 ''Tax return for this year already exists'')"
      using post_tax_return_lookup_valid [OF cust ty] by simp
    then show ?thesis
      using True by (simp add: post_tax_return_handler_def)
  next
    case False
    then have "post_tax_return_lookup user (Some taxYear) store = Inr customerId"
      using post_tax_return_lookup_valid [OF cust ty] by simp
    then have "post_tax_return_handler date_in utc_offset user (Some taxYear) situationType
                 submissionDeadline newId now store =
               post_tax_return_insert date_in utc_offset customerId (Some taxYear) situationType
                 submissionDeadline newId now store"
      by (simp add: post_tax_return_handler_def)
    then show ?thesis
      using False by (simp only: post_tax_return_insert_result [OF fk] if_False)
  qed
qed

lemma one_return_per_year_append:
  assumes "one_return_per_year store"
    and "\<not> (\<exists>r \<in> set (tax_returns store).
            tr_customer_id r = Some customerId \<and> tr_tax_year r = taxYear)"
    and "tr_customer_id row = Some customerId" and "tr_tax_year row = taxYear"
  shows "one_return_per_year (store\<lparr> tax_returns := tax_returns store @ [row] \<rparr>)"
  using assms by (auto simp: one_return_per_year_def)

lemma one_return_per_year_rewrite:
  assumes "one_return_per_year store"
    and "\<And>r. tr_customer_id (g r) = tr_customer_id r \<and> tr_tax_year (g r) = tr_tax_year r"
  shows "one_return_per_year (store\<lparr> tax_returns := map g (tax_returns store) \<rparr>)"
proof -
  have "map (\<lambda>r. (tr_customer_id r, tr_tax_year r))
          (filter (\<lambda>r. tr_customer_id r \<noteq> None) (map g (tax_returns store))) =
        map (\<lambda>r. (tr_customer_id r, tr_tax_year r))
          (filter (\<lambda>r. tr_customer_id r \<noteq> None) (tax_returns store))"
    using assms(2) by (induction "tax_returns store" arbitrary: store) (simp_all add: filter_map comp_def)
  then show ?thesis
    using assms(1) by (simp add: one_return_per_year_def)
qed

lemma one_return_per_year_remove:
  assumes "one_return_per_year store" and "tax_returns store' = filter P (tax_returns store)"
  shows "one_return_per_year store'"
proof -
  have c: "filter Q (filter P xs) = filter P (filter Q xs)" for Q and xs :: "tax_return_row list"
    by (induction xs) simp_all
  have "distinct (map (\<lambda>r. (tr_customer_id r, tr_tax_year r))
          (filter P (filter (\<lambda>r. tr_customer_id r \<noteq> None) (tax_returns store))))"
    using assms(1) unfolding one_return_per_year_def by (rule distinct_map_filter)
  then show ?thesis
    unfolding one_return_per_year_def assms(2) c .
qed

lemma one_return_per_year_same:
  assumes "one_return_per_year store" and "tax_returns store' = tax_returns store"
  shows "one_return_per_year store'"
  using assms by (simp add: one_return_per_year_def)

lemma post_tax_return_route_invariant:
  assumes inv: "one_return_per_year store"
  shows "one_return_per_year
           (snd (post_tax_return_route jwt_verify isISO8601 date_in utc_offset authHeader taxYear
                   situationType submissionDeadline newId now store))"
proof (cases "authenticate jwt_verify store authHeader")
  case (Inl out)
  then show ?thesis using inv by (simp add: post_tax_return_route_def)
next
  case (Inr user)
  show ?thesis
  proof (cases "authorize [''customer''] (Some user)")
    case (Inl out)
    then show ?thesis using inv Inr by (simp add: post_tax_return_route_def)
  next
    case authz: (Inr ok)
    show ?thesis
    proof (cases "handleValidationErrors
                    (post_tax_return_validators isISO8601 taxYear situationType
                       submissionDeadline)")
      case (Inl out)
      then show ?thesis using inv Inr authz by (simp add: post_tax_return_route_def)
    next
      case valid: (Inr ok')
      then have "matchesTaxYear (case taxYear of None \<Rightarrow> [] | Some s \<Rightarrow> s)"
        by (auto simp: handleValidationErrors_def post_tax_return_validators_def
            split: if_splits)
      then obtain ty where ty: "taxYear = Some ty" "ty \<noteq> []"
        by (cases taxYear) (simp add: matchesTaxYear_def, simp add: matchesTaxYear_nonempty)
      have route: "post_tax_return_route jwt_verify isISO8601 date_in utc_offset authHeader
                     taxYear situationType submissionDeadline newId now store =
                   post_tax_return_handler date_in utc_offset user taxYear situationType
                     submissionDeadline newId now store"
        using Inr authz valid by (simp add: post_tax_return_route_def)
      show ?thesis
      proof (cases "getCustomerIdFromUser store (pr_id user)")
        case None
        then show ?thesis
          using inv route by (simp add: post_tax_return_handler_def post_tax_return_lookup_def)
      next
        case (Some customerId)
        note h = post_tax_return_handler_valid [OF Some ty(2), of date_in utc_offset
            situationType submissionDeadline newId now]
        show ?thesis
        proof (cases "\<exists>r \<in> set (tax_returns store).
                        tr_customer_id r = Some customerId \<and> tr_tax_year r = ty")
          case True
          then show ?thesis using inv route ty h by simp
        next
          case False
          show ?thesis
          proof (cases "bind_date date_in (Some (deadline_param utc_offset submissionDeadline))")
            case (Inl code)
            then show ?thesis using inv route ty h False by simp
          next
            case (Inr deadline)
            have "one_return_per_year
                    (store\<lparr> tax_returns := tax_returns store @
                       [created_return customerId ty situationType deadline newId now] \<rparr>)"
              using inv False
              by (rule one_return_per_year_append) (simp_all add: created_return_def)
            then show ?thesis using route ty h False Inr by simp
          qed
        qed
      qed
    qed
  qed
qed

lemma update_tax_returns_invariant:
  assumes "one_return_per_year store"
    and "\<And>r. tr_customer_id (assign r) = tr_customer_id r \<and> tr_tax_year (assign r) = tr_tax_year r"
  shows "one_return_per_year (snd (update_tax_returns assign rid now store))"
proof -
  have "snd (update_tax_returns assign rid now store) =
          store\<lparr> tax_returns :=
            map (\<lambda>r. if tr_id r = rid then (assign r)\<lparr> tr_updated_at := now \<rparr> else r)
                (tax_returns store) \<rparr>"
    by (simp add: update_tax_returns_def Let_def split: list.splits)
  then show ?thesis
    using one_return_per_year_rewrite [OF assms(1),
        of "\<lambda>r. if tr_id r = rid then (assign r)\<lparr> tr_updated_at := now \<rparr> else r"] assms(2)
    by simp
qed

lemma updateStatus_invariant:
  "one_return_per_year store \<Longrightarrow> one_return_per_year (snd (updateStatus this newStatus now store))"
  by (simp add: updateStatus_def update_tax_returns_invariant)

lemma assignAccountant_invariant:
  "one_return_per_year store \<Longrightarrow>
     one_return_per_year (snd (assignAccountant this accountantId now store))"
  by (simp add: assignAccountant_def update_tax_returns_invariant)

lemma updateCalculations_invariant:
  "one_return_per_year store \<Longrightarrow>
     one_return_per_year (snd (updateCalculations this calculationData now store))"
  by (simp add: updateCalculations_def update_tax_returns_invariant)

lemma markAsFiled_invariant:
  "one_return_per_year store \<Longrightarrow>
     one_return_per_year (snd (markAsFiled this hmrcReference now store))"
  by (simp add: markAsFiled_def update_tax_returns_invariant split: sum.splits)

lemma put_status_handler_invariant:
  assumes "one_return_per_year store"
  shows "one_return_per_year (snd (put_status_handler user rid status now store))"
proof (cases "TaxReturn_findById store rid")
  case None
  then show ?thesis using assms by (simp add: put_status_handler_def)
next
  case (Some taxReturn)
  show ?thesis
  proof (cases status)
    case None
    then show ?thesis using assms Some by (simp add: put_status_handler_def)
  next
    case st: (Some newStatus)
    obtain r store' where u: "updateStatus taxReturn newStatus now store = (r, store')"
      by (cases "updateStatus taxReturn newStatus now store")
    then have "one_return_per_year store'"
      using updateStatus_invariant [OF assms, of taxReturn newStatus now] by simp
    then show ?thesis
      using assms Some st u by (cases r) (simp_all add: put_status_handler_def)
  qed
qed

lemma put_status_route_invariant:
  assumes "one_return_per_year store"
  shows "one_return_per_year (snd (put_status_route jwt_verify authHeader rid status now store))"
  using assms put_status_handler_invariant [OF assms]
  by (simp add: put_status_route_def split: sum.splits)

lemma put_assign_handler_invariant:
  assumes "one_return_per_year store"
  shows "one_return_per_year (snd (put_assign_handler rid accountantId now store))"
proof (cases "TaxReturn_findById store rid")
  case None
  then show ?thesis using assms by (simp add: put_assign_handler_def)
next
  case (Some taxReturn)
  obtain r store' where u: "assignAccountant taxReturn accountantId now store = (r, store')"
    by (cases "assignAccountant taxReturn accountantId now store")
  then have "one_return_per_year store'"
    using assignAccountant_invariant [OF assms, of taxReturn accountantId now] by simp
  then show ?thesis
    using assms Some u by (cases r) (simp_all add: put_assign_handler_def)
qed

lemma put_calculations_handler_invariant:
  assumes "one_return_per_year store"
  shows "one_return_per_year (snd (put_calculations_handler user rid body now store))"
proof (cases "TaxReturn_findById store rid")
  case None
  then show ?thesis using assms by (simp add: put_calculations_handler_def)
next
  case (Some taxReturn)
  obtain r store' where u: "updateCalculations taxReturn body now store = (r, store')"
    by (cases "updateCalculations taxReturn body now store")
  then have "one_return_per_year store'"
    using updateCalculations_invariant [OF assms, of taxReturn body now] by simp
  then show ?thesis
    using assms Some u by (cases r) (simp_all add: put_calculations_handler_def)
qed

lemma post_file_handler_invariant:
  assumes "one_return_per_year store"
  shows "one_return_per_year (snd (post_file_handler user rid hmrcReference now store))"
proof (cases "TaxReturn_findById store rid")
  case None
  then show ?thesis using assms by (simp add: post_file_handler_def)
next
  case (Some taxReturn)
  obtain r store' where u: "markAsFiled taxReturn hmrcReference now store = (r, store')"
    by (cases "markAsFiled taxReturn hmrcReference now store")
  then have "one_return_per_year store'"
    using markAsFiled_invariant [OF assms, of taxReturn hmrcReference now] by simp
  then show ?thesis
    using assms Some u by (cases r) (simp_all add: post_file_handler_def)
qed

lemma TaxReturn_delete_invariant:
  assumes inv: "one_return_per_year store"
    and t: "t = Idle \<or> t = In_failed_transaction"
  shows "one_return_per_year
           (durable (snd (TaxReturn_delete fails connect_error this \<lparr> durable = store, txn = t \<rparr>)))"
proof -
  have "tax_returns (without_return (tr_id this) store) =
          filter (\<lambda>r. tr_id r \<noteq> tr_id this) (tax_returns store)"
    by (simp add: without_return_def)
  then have w: "one_return_per_year (without_return (tr_id this) store)"
    using inv by (rule one_return_per_year_remove [rotated])
  show ?thesis
  proof (cases connect_error)
    case (Some error)
    then show ?thesis
      using inv by (simp add: TaxReturn_delete_unconnected)
  next
    case None
    from t show ?thesis
    proof
      assume "t = Idle"
      then show ?thesis
        using inv w None TaxReturn_delete_idle [of this fails store] by (auto split: if_splits)
    next
      assume "t = In_failed_transaction"
      then show ?thesis
        using inv None TaxReturn_delete_aborted [of fails this store] by auto
    qed
  qed
qed

lemma delete_tax_return_handler_invariant:
  assumes inv: "one_return_per_year store"
    and t: "t = Idle \<or> t = In_failed_transaction"
  shows "one_return_per_year
           (durable (snd (delete_tax_return_handler fails connect_error rid \<lparr> durable = store, txn = t \<rparr>)))"
proof (cases "TaxReturn_findById store rid")
  case None
  then show ?thesis using inv by (simp add: delete_tax_return_handler_def)
next
  case (Some taxReturn)
  obtain r client' where
    u: "TaxReturn_delete fails connect_error taxReturn \<lparr> durable = store, txn = t \<rparr> = (r, client')"
    by (cases "TaxReturn_delete fails connect_error taxReturn \<lparr> durable = store, txn = t \<rparr>")
  then have "one_return_per_year (durable client')"
    using TaxReturn_delete_invariant [OF inv t, of fails connect_error taxReturn] by simp
  then show ?thesis
    using Some u by (cases r) (simp_all add: delete_tax_return_handler_def)
qed

text \<open>
  The client that a deletion gives back to the pool is idle or inside an aborted block, as
  the one it took.
\<close>

lemma TaxReturn_delete_client:
  assumes "t = Idle \<or> t = In_failed_transaction"
  shows "txn (snd (TaxReturn_delete fails connect_error this \<lparr> durable = store, txn = t \<rparr>)) = Idle
         \<or> txn (snd (TaxReturn_delete fails connect_error this \<lparr> durable = store, txn = t \<rparr>)) =
             In_failed_transaction"
proof (cases connect_error)
  case (Some error)
  then show ?thesis
    using assms by (auto simp: TaxReturn_delete_unconnected)
next
  case None
  from assms show ?thesis
  proof
    assume "t = Idle"
    then show ?thesis
      using None TaxReturn_delete_idle [of this fails store] by (auto split: if_splits)
  next
    assume "t = In_failed_transaction"
    then show ?thesis
      using None TaxReturn_delete_aborted [of fails this store] by auto
  qed
qed

text \<open>
  The stores that arise from a store by requests handled one after the other, each to
  completion, with any arguments: the six routes whose handlers write \<open>tax_returns\<close>
  (creation, status, assignment, calculations, filing, deletion), and any request that
  leaves the table as it is, which is every other route of the server. The middleware in
  front of a handler answers without writing, so a handler run with any principal covers
  its route. A deletion runs on a client as a deletion leaves them.
\<close>

inductive reachable :: "db \<Rightarrow> db \<Rightarrow> bool" for s0 :: db where
  start: "reachable s0 s0"
| created:
    "reachable s0 s \<Longrightarrow>
     reachable s0 (snd (post_tax_return_route jwt_verify isISO8601 date_in utc_offset authHeader
                          taxYear situationType submissionDeadline newId now s))"
| status_set:
    "reachable s0 s \<Longrightarrow>
     reachable s0 (snd (put_status_route jwt_verify authHeader rid status now s))"
| assigned:
    "reachable s0 s \<Longrightarrow> reachable s0 (snd (put_assign_handler rid accountantId now s))"
| calculated:
    "reachable s0 s \<Longrightarrow> reachable s0 (snd (put_calculations_handler user rid body now s))"
| filed:
    "reachable s0 s \<Longrightarrow> reachable s0 (snd (post_file_handler user rid hmrcReference now s))"
| deleted:
    "reachable s0 s \<Longrightarrow> t = Idle \<or> t = In_failed_transaction \<Longrightarrow>
     reachable s0 (durable (snd (delete_tax_return_handler fails connect_error rid
                                   \<lparr> durable = s, txn = t \<rparr>)))"
| elsewhere:
    "reachable s0 s \<Longrightarrow> tax_returns s' = tax_returns s \<Longrightarrow> reachable s0 s'"

lemma reachable_invariant:
  assumes "reachable s0 s" and "one_return_per_year s0"
  shows "one_return_per_year s"
  using assms
proof (induction rule: reachable.induct)
  case start
  then show ?case by simp
next
  case (created s jwt_verify isISO8601 date_in utc_offset authHeader taxYear situationType
      submissionDeadline newId now)
  then show ?case by (simp add: post_tax_return_route_invariant)
next
  case (status_set s jwt_verify authHeader rid status now)
  then show ?case by (simp add: put_status_route_invariant)
next
  case (assigned s rid accountantId now)
  then show ?case by (simp add: put_assign_handler_invariant)
next
  case (calculated s user rid body now)
  then show ?case by (simp add: put_calculations_handler_invariant)
next
  case (filed s user rid hmrcReference now)
  then show ?case by (simp add: post_file_handler_invariant)
next
  case (deleted s t fails connect_error rid)
  then show ?case by (simp add: delete_tax_return_handler_invariant)
next
  case (elsewhere s s')
  then show ?case by (simp add: one_return_per_year_same)
qed

lemma post_tax_return_route_valid:
  assumes auth: "authenticate jwt_verify store authHeader = Inr user"
    and role: "pr_role user = ''customer''"
    and cust: "getCustomerIdFromUser store (pr_id user) = Some customerId"
    and ty: "matchesTaxYear taxYear"
    and sit: "situationType \<in> set situationTypes"
    and dl: "case submissionDeadline of None \<Rightarrow> True | Some d \<Rightarrow> isISO8601 d"
  shows "post_tax_return_route jwt_verify isISO8601 date_in utc_offset authHeader (Some taxYear)
           (Some situationType) submissionDeadline newId now store =
         (if \<exists>r \<in> set (tax_returns store).
               tr_customer_id r = Some customerId \<and> tr_tax_year r = taxYear
          then (Respond 400 (Obj [(''success'', Bool False),
                                  (''error'', Str ''Tax return for this year already exists'')]),
                store)
          else (case bind_date date_in (Some (deadline_param utc_offset submissionDeadline)) of
                  Inl code \<Rightarrow> (NextError (DatabaseError code), store)
                | Inr deadline \<Rightarrow>
                    (Respond 201
                       (Obj [(''success'', Bool True),
                             (''message'', Str ''Tax return created successfully''),
                             (''data'', TaxReturn_toJSON
                                (created_return customerId taxYear (Some situationType) deadline
                                   newId now))]),
                     store\<lparr> tax_returns := tax_returns store @
                       [created_return customerId taxYear (Some situationType) deadline
                          newId now] \<rparr>)))"
proof -
  have a: "authorize [''customer''] (Some user) = Inr ()"
    using role by (simp add: authorize_def)
  have v: "post_tax_return_validators isISO8601 (Some taxYear) (Some situationType)
             submissionDeadline = []"
    using ty sit dl
    by (auto simp: post_tax_return_validators_def isIn_def split: option.splits)
  have "post_tax_return_route jwt_verify isISO8601 date_in utc_offset authHeader (Some taxYear)
          (Some situationType) submissionDeadline newId now store =
        post_tax_return_handler date_in utc_offset user (Some taxYear) (Some situationType)
          submissionDeadline newId now store"
    by (simp add: post_tax_return_route_def auth a v handleValidationErrors_def)
  then show ?thesis
    by (simp only: post_tax_return_handler_valid [OF cust matchesTaxYear_nonempty [OF ty]]
        json_error_def)
qed

text \<open>
  A customer of the sample store, a validator that accepts a full date and a year with a
  month (as \<open>isISO8601\<close> of the validator package does), and a DATE input that stores the
  full date and refuses the other text (as PostgreSQL does, with 22007).
\<close>

definition sample_customer :: principal where
  "sample_customer =
     \<lparr> pr_id = ''u-cust'', pr_email = ''cust@example.com'', pr_role = ''customer'',
       pr_firstName = ''Ada'', pr_lastName = ''Smith'' \<rparr>"

definition sample_isISO8601 :: "string \<Rightarrow> bool" where
  "sample_isISO8601 d = (d = ''2024-06-30'' \<or> d = ''2025-01'')"

definition sample_date_in :: "string \<Rightarrow> string + string" where
  "sample_date_in s = (if s = ''2024-06-30'' then Inr s else Inl ''22007'')"

lemma sample_customer_authenticated:
  "authenticate sample_verify sample_store (Some ''Bearer tok-u-cust'') = Inr sample_customer"
  by (simp add: authenticate_def startsWith_def sample_verify_def User_findById_def
      sample_store_def sample_user_def new_User_def sample_customer_def)

lemma sample_customer_profile:
  "getCustomerIdFromUser sample_store (pr_id sample_customer) = Some ''c-1''"
  by (simp add: getCustomerIdFromUser_def sample_store_def sample_customer_def)

lemma sample_customer_role: "pr_role sample_customer = ''customer''"
  by (simp add: sample_customer_def)

lemma sample_store_one_return_per_year: "one_return_per_year sample_store"
  by (simp add: one_return_per_year_def sample_store_def sample_return_def)

lemma sample_store_years:
  "\<exists>r \<in> set (tax_returns sample_store).
     tr_customer_id r = Some ''c-1'' \<and> tr_tax_year r = ''2023-24''"
  "\<not> (\<exists>r \<in> set (tax_returns sample_store).
        tr_customer_id r = Some ''c-1'' \<and> tr_tax_year r = ''2024-25'')"
  by (simp_all add: sample_store_def sample_return_def)

lemma sample_tax_years: "matchesTaxYear ''2023-24''" "matchesTaxYear ''2024-25''"
  by (simp_all add: matchesTaxYear_def isDigit_def)

lemma sample_situation: "''landlord'' \<in> set situationTypes"
  by (simp add: situationTypes_def)

lemma sample_customers: "''c-1'' \<in> set (map c_id (customers sample_store))"
  by (simp add: sample_store_def)

text \<open>
  The claim as the specification states it fails in two ways. A deadline that is a year
  and a month passes the validator and no return for the pair is stored, yet the INSERT is
  refused and nothing is created. And two requests of one customer for the same new year,
  each doing its lookup before the other's INSERT, both get past the check and both insert
  (the schema has no unique constraint on the pair): two returns for the pair are stored.
\<close>

theorem create_one_return_per_year_counterexample:
  "sample_isISO8601 ''2025-01''
   \<and> post_tax_return_route sample_verify sample_isISO8601 sample_date_in 0
        (Some ''Bearer tok-u-cust'') (Some ''2024-25'') (Some ''landlord'') (Some ''2025-01'')
        ''r-9'' 9 sample_store =
       (NextError (DatabaseError ''22007''), sample_store)
   \<and> one_return_per_year sample_store
   \<and> post_tax_return_lookup sample_customer (Some ''2024-25'') sample_store = Inr ''c-1''
   \<and> status_of (fst (post_tax_return_insert sample_date_in 0 ''c-1'' (Some ''2024-25'')
                        (Some ''landlord'') None ''r-8'' 8 sample_store)) = Some 201
   \<and> status_of (fst (post_tax_return_insert sample_date_in 0 ''c-1'' (Some ''2024-25'')
                        (Some ''landlord'') None ''r-9'' 9
                        (snd (post_tax_return_insert sample_date_in 0 ''c-1'' (Some ''2024-25'')
                                (Some ''landlord'') None ''r-8'' 8 sample_store)))) = Some 201
   \<and> \<not> one_return_per_year
          (snd (post_tax_return_insert sample_date_in 0 ''c-1'' (Some ''2024-25'')
                  (Some ''landlord'') None ''r-9'' 9
                  (snd (post_tax_return_insert sample_date_in 0 ''c-1'' (Some ''2024-25'')
                          (Some ''landlord'') None ''r-8'' 8 sample_store))))"
proof -
  have iso: "sample_isISO8601 ''2025-01''"
    by (simp add: sample_isISO8601_def)
  have dl: "case Some ''2025-01'' of None \<Rightarrow> True | Some d \<Rightarrow> sample_isISO8601 d"
    using iso by simp
  have refused: "bind_date sample_date_in (Some (deadline_param 0 (Some ''2025-01''))) =
                   Inl ''22007''"
    by (simp add: bind_date_def deadline_param_def sample_date_in_def)
  have route: "post_tax_return_route sample_verify sample_isISO8601 sample_date_in 0
        (Some ''Bearer tok-u-cust'') (Some ''2024-25'') (Some ''landlord'') (Some ''2025-01'')
        ''r-9'' 9 sample_store =
       (NextError (DatabaseError ''22007''), sample_store)"
    using post_tax_return_route_valid [OF sample_customer_authenticated sample_customer_role
        sample_customer_profile sample_tax_years(2) sample_situation dl,
        where date_in = sample_date_in and utc_offset = 0 and newId = "''r-9''" and now = 9]
      sample_store_years(2) refused
    by simp
  have lookup: "post_tax_return_lookup sample_customer (Some ''2024-25'') sample_store =
                  Inr ''c-1''"
    using post_tax_return_lookup_valid [OF sample_customer_profile, of "''2024-25''"]
      sample_store_years(2)
    by simp
  have default: "bind_date sample_date_in (Some (deadline_param 0 None)) = Inr (Some ''2024-01-31'')"
    by (simp add: bind_date_def deadline_param_def default_deadline_def)
  let ?first = "created_return ''c-1'' ''2024-25'' (Some ''landlord'') (Some ''2024-01-31'') ''r-8'' 8"
  let ?second = "created_return ''c-1'' ''2024-25'' (Some ''landlord'') (Some ''2024-01-31'') ''r-9'' 9"
  let ?s1 = "sample_store\<lparr> tax_returns := tax_returns sample_store @ [?first] \<rparr>"
  have i1: "post_tax_return_insert sample_date_in 0 ''c-1'' (Some ''2024-25'')
              (Some ''landlord'') None ''r-8'' 8 sample_store =
            (Respond 201
               (Obj [(''success'', Bool True),
                     (''message'', Str ''Tax return created successfully''),
                     (''data'', TaxReturn_toJSON ?first)]), ?s1)"
    using post_tax_return_insert_result [OF sample_customers,
        where date_in = sample_date_in and utc_offset = 0 and submissionDeadline = None]
      default
    by simp
  have c1: "''c-1'' \<in> set (map c_id (customers ?s1))"
    using sample_customers by simp
  have i2: "post_tax_return_insert sample_date_in 0 ''c-1'' (Some ''2024-25'')
              (Some ''landlord'') None ''r-9'' 9 ?s1 =
            (Respond 201
               (Obj [(''success'', Bool True),
                     (''message'', Str ''Tax return created successfully''),
                     (''data'', TaxReturn_toJSON ?second)]),
             ?s1\<lparr> tax_returns := tax_returns ?s1 @ [?second] \<rparr>)"
    using post_tax_return_insert_result [OF c1,
        where date_in = sample_date_in and utc_offset = 0 and submissionDeadline = None]
      default
    by simp
  have twice: "\<not> one_return_per_year (?s1\<lparr> tax_returns := tax_returns ?s1 @ [?second] \<rparr>)"
    by (simp add: one_return_per_year_def created_return_def)
  show ?thesis
    using iso route sample_store_one_return_per_year lookup twice
    by (simp only: i1 i2 fst_conv snd_conv status_of.simps simp_thms)
qed

text \<open>
  C3, amended. For every authenticated customer with a customer profile and every request
  \<open>POST /api/tax-returns\<close> that passes the validators (tax year of the form YYYY-YY, a
  listed situation type, a deadline, if any, that \<open>isISO8601\<close> accepts): when the store
  holds a return of that customer for that tax year the answer is 400 "Tax return for this
  year already exists" and the store is unchanged. Otherwise the return is created only if
  the database takes the deadline for a date: then the answer is 201 and exactly the new
  pending return is appended, with the deadline as the DATE column holds it (for a request
  without one, the local calendar day of the default); when the database refuses the
  deadline its error is passed on and the store is unchanged. And as long as requests are
  handled one after the other, every store reached from one that holds at most one return
  per customer and tax year holds at most one return per customer and tax year.
\<close>

theorem create_one_return_per_year:
  assumes auth: "authenticate jwt_verify store authHeader = Inr user"
    and role: "pr_role user = ''customer''"
    and cust: "getCustomerIdFromUser store (pr_id user) = Some customerId"
    and ty: "matchesTaxYear taxYear"
    and sit: "situationType \<in> set situationTypes"
    and dl: "case submissionDeadline of None \<Rightarrow> True | Some d \<Rightarrow> isISO8601 d"
  shows "post_tax_return_route jwt_verify isISO8601 date_in utc_offset authHeader (Some taxYear)
           (Some situationType) submissionDeadline newId now store =
         (if \<exists>r \<in> set (tax_returns store).
               tr_customer_id r = Some customerId \<and> tr_tax_year r = taxYear
          then (Respond 400 (Obj [(''success'', Bool False),
                                  (''error'', Str ''Tax return for this year already exists'')]),
                store)
          else (case bind_date date_in (Some (deadline_param utc_offset submissionDeadline)) of
                  Inl code \<Rightarrow> (NextError (DatabaseError code), store)
                | Inr deadline \<Rightarrow>
                    (Respond 201
                       (Obj [(''success'', Bool True),
                             (''message'', Str ''Tax return created successfully''),
                             (''data'', TaxReturn_toJSON
                                (created_return customerId taxYear (Some situationType) deadline
                                   newId now))]),
                     store\<lparr> tax_returns := tax_returns store @
                       [created_return customerId taxYear (Some situationType) deadline
                          newId now] \<rparr>)))
         \<and> (one_return_per_year store \<longrightarrow> (\<forall>s. reachable store s \<longrightarrow> one_return_per_year s))"
  using post_tax_return_route_valid [OF auth role cust ty sit dl] reachable_invariant
  by blast

theorem create_one_return_per_year_witness:
  "one_return_per_year sample_store
   \<and> post_tax_return_route sample_verify sample_isISO8601 sample_date_in 0
        (Some ''Bearer tok-u-cust'') (Some ''2023-24'') (Some ''landlord'') (Some ''2024-06-30'')
        ''r-9'' 9 sample_store =
       (Respond 400 (Obj [(''success'', Bool False),
                          (''error'', Str ''Tax return for this year already exists'')]),
        sample_store)
   \<and> post_tax_return_route sample_verify sample_isISO8601 sample_date_in 0
        (Some ''Bearer tok-u-cust'') (Some ''2024-25'') (Some ''landlord'') (Some ''2024-06-30'')
        ''r-9'' 9 sample_store =
       (Respond 201
          (Obj [(''success'', Bool True),
                (''message'', Str ''Tax return created successfully''),
                (''data'', TaxReturn_toJSON
                   (created_return ''c-1'' ''2024-25'' (Some ''landlord'') (Some ''2024-06-30'')
                      ''r-9'' 9))]),
        sample_store\<lparr> tax_returns := tax_returns sample_store @
          [created_return ''c-1'' ''2024-25'' (Some ''landlord'') (Some ''2024-06-30'')
             ''r-9'' 9] \<rparr>)
   \<and> tr_submission_deadline
        (last (tax_returns (snd (post_tax_return_route sample_verify sample_isISO8601
           sample_date_in (- 300) (Some ''Bearer tok-u-cust'') (Some ''2024-25'')
           (Some ''landlord'') None ''r-9'' 9 sample_store)))) = Some ''2024-01-30''
   \<and> one_return_per_year
        (snd (post_tax_return_route sample_verify sample_isISO8601 sample_date_in 0
                (Some ''Bearer tok-u-cust'') (Some ''2024-25'') (Some ''landlord'')
                (Some ''2024-06-30'') ''r-9'' 9 sample_store))"
proof -
  have dl: "case Some ''2024-06-30'' of None \<Rightarrow> True | Some d \<Rightarrow> sample_isISO8601 d"
    by (simp add: sample_isISO8601_def)
  have dn: "case (None :: string option) of None \<Rightarrow> True | Some d \<Rightarrow> sample_isISO8601 d"
    by simp
  have given: "bind_date sample_date_in (Some (deadline_param 0 (Some ''2024-06-30''))) =
                 Inr (Some ''2024-06-30'')"
    by (simp add: bind_date_def deadline_param_def sample_date_in_def)
  have west: "bind_date sample_date_in (Some (deadline_param (- 300) None)) =
                Inr (Some ''2024-01-30'')"
    by (simp add: bind_date_def deadline_param_def default_deadline_def)
  note t1 = create_one_return_per_year [OF sample_customer_authenticated sample_customer_role
      sample_customer_profile sample_tax_years(1) sample_situation dl,
      where date_in = sample_date_in and utc_offset = 0 and newId = "''r-9''" and now = 9]
  note t2 = create_one_return_per_year [OF sample_customer_authenticated sample_customer_role
      sample_customer_profile sample_tax_years(2) sample_situation dl,
      where date_in = sample_date_in and utc_offset = 0 and newId = "''r-9''" and now = 9]
  note t3 = create_one_return_per_year [OF sample_customer_authenticated sample_customer_role
      sample_customer_profile sample_tax_years(2) sample_situation dn,
      where date_in = sample_date_in and utc_offset = "- 300" and newId = "''r-9''" and now = 9]
  have r: "reachable sample_store
             (snd (post_tax_return_route sample_verify sample_isISO8601 sample_date_in 0
                     (Some ''Bearer tok-u-cust'') (Some ''2024-25'') (Some ''landlord'')
                     (Some ''2024-06-30'') ''r-9'' 9 sample_store))"
    by (rule reachable.created [OF reachable.start])
  have d3: "tr_submission_deadline
              (created_return ''c-1'' ''2024-25'' (Some ''landlord'') (Some ''2024-01-30'')
                 ''r-9'' 9) = Some ''2024-01-30''"
    by (simp add: created_return_def)
  show ?thesis
    using t1 t2 t3 sample_store_one_return_per_year sample_store_years r given west d3
    by simp
qed

section \<open>routes/taxReturns: reading one return\<close>








definition document_columns :: "document_row \<Rightarrow> (string \<times> jsval) list" where
  "document_columns d =
     [ (''id'', Str (d_id d)),
       (''tax_return_id'', of_text (d_tax_return_id d)),
       (''uploaded_by'', of_text (d_uploaded_by d)),
       (''document_type'', Str (d_document_type d)),
       (''original_name'', Str (d_original_name d)),
       (''file_path'', Str (d_file_path d)),
       (''file_size'', of_num (d_file_size d)),
       (''mime_type'', of_text (d_mime_type d)),
       (''created_at'', Num (int (d_created_at d))) ]"





section \<open>Reading a return of another customer\<close>







text \<open>
  The generic ownership middleware is not mounted on this route; it lets an administrator
  through before the owner is resolved and answers 403 to anyone else who is not the owner.
\<close>

lemma checkOwnership_cases:
  "pr_role user = ''admin'' \<Longrightarrow> checkOwnership owner (Some user) = Inr ()"
  "pr_role user \<noteq> ''admin'' \<Longrightarrow> owner = Str oid \<Longrightarrow> oid \<noteq> [] \<Longrightarrow> pr_id user \<noteq> oid \<Longrightarrow>
     checkOwnership owner (Some user) =
       Inl (json_error 403 ''Access denied. You can only access your own resources.'')"
  by (simp_all add: checkOwnership_def)

section \<open>routes/uploads\<close>

text \<open>
  The environment variables the upload route reads. \<open>MAX_FILE_SIZE\<close> is the integer
  \<open>parseInt\<close> finds in it, if any.
\<close>

record env =
  ALLOWED_FILE_TYPES :: "string option"
  MAX_FILE_SIZE :: "nat option"
  UPLOAD_PATH :: "string option"

text \<open>
  A file part of the request as the upload middleware presents it to the filter, with its
  length and the suffix \<open>Date.now() + '-' + Math.round(Math.random() * 1E9)\<close> drawn for
  its name; and an entry of \<open>req.files\<close>.
\<close>

record incoming_file =
  in_fieldname :: string
  in_originalname :: string
  in_mimetype :: string
  in_size :: nat
  in_uniqueSuffix :: string

record uploaded_file =
  up_originalname :: string
  up_mimetype :: string
  up_path :: string
  up_size :: nat

text \<open>
  \<open>path.extname\<close> (POSIX): the last component of the path, trailing slashes ignored, from
  its last dot on; empty when that component has no dot, begins with its only dot, or is
  \<open>..\<close>. Strings are ASCII.
\<close>

definition last_component :: "string \<Rightarrow> string" where
  "last_component p =
     rev (takeWhile (\<lambda>c. c \<noteq> CHR ''/'') (dropWhile (\<lambda>c. c = CHR ''/'') (rev p)))"

definition extname :: "string \<Rightarrow> string" where
  "extname p =
     (let comp = last_component p;
          ext = rev (takeWhile (\<lambda>c. c \<noteq> CHR ''.'') (rev comp));
          stem = take (length comp - length ext - 1) comp
      in if CHR ''.'' \<notin> set comp \<or> stem = [] \<or> comp = ''..'' then []
         else CHR ''.'' # ext)"

definition toLowerCase :: "string \<Rightarrow> string" where
  "toLowerCase s =
     map (\<lambda>c. case map_of (zip ''ABCDEFGHIJKLMNOPQRSTUVWXYZ'' ''abcdefghijklmnopqrstuvwxyz'') c of
                 None \<Rightarrow> c
               | Some l \<Rightarrow> l) s"

text \<open>\<open>s.split(',')\<close> and \<open>xs.join(', ')\<close>.\<close>

fun split_commas :: "string \<Rightarrow> string list" where
  "split_commas [] = [[]]"
| "split_commas (c # cs) =
     (if c = CHR '','' then [] # split_commas cs
      else (case split_commas cs of
              [] \<Rightarrow> [[c]]
            | w # ws \<Rightarrow> (c # w) # ws))"

fun join_comma_space :: "string list \<Rightarrow> string" where
  "join_comma_space [] = []"
| "join_comma_space [w] = w"
| "join_comma_space (w # ws) = w @ '', '' @ join_comma_space ws"

text \<open>\<open>fileFilter\<close>.\<close>

definition allowedTypes :: "env \<Rightarrow> string list" where
  "allowedTypes e =
     split_commas (if present (ALLOWED_FILE_TYPES e) then the (ALLOWED_FILE_TYPES e)
                   else ''pdf,jpg,jpeg,png,doc,docx,xls,xlsx'')"

definition fileExtension :: "incoming_file \<Rightarrow> string" where
  "fileExtension file = drop 1 (toLowerCase (extname (in_originalname file)))"

definition fileFilter :: "env \<Rightarrow> incoming_file \<Rightarrow> js_error + bool" where
  "fileFilter e file =
     (if fileExtension file \<in> set (allowedTypes e) then Inr True
      else Inl (Error (''File type .'' @ fileExtension file @ '' is not allowed. Allowed types: ''
                       @ join_comma_space (allowedTypes e))))"

text \<open>
  The storage engine's \<open>filename\<close> callback and the path of the stored file under the
  upload directory (the normalisation that \<open>path.join\<close> performs is left out).
\<close>

definition filename :: "incoming_file \<Rightarrow> string" where
  "filename file =
     in_fieldname file @ ''-'' @ in_uniqueSuffix file @ extname (in_originalname file)"

definition stored_path :: "env \<Rightarrow> incoming_file \<Rightarrow> string" where
  "stored_path e file =
     (if present (UPLOAD_PATH e) then the (UPLOAD_PATH e) else ''./uploads'')
     @ ''/'' @ filename file"

definition fileSize_limit :: "env \<Rightarrow> nat" where
  "fileSize_limit e =
     (case MAX_FILE_SIZE e of
        None \<Rightarrow> 10 * 1024 * 1024
      | Some n \<Rightarrow> if n = 0 then 10 * 1024 * 1024 else n)"

text \<open>
  Modelled from the spec: the upload middleware \<open>upload.array('documents', 5)\<close> itself, which
  is the multer package and not part of the sources. The spec: it "accepts up to 5 files per
  request, each checked against an extension allow-list and a size ceiling; files are
  persisted to a directory with a randomized filename", and an upload with a disallowed
  extension "is rejected ... and no file remains on disk". So the parts are taken in order;
  a part beyond the fifth, a part the filter refuses and a part above the size ceiling end
  the request with the error, and the files this request has stored so far are removed;
  otherwise the part is stored and appended to \<open>req.files\<close>. The disk is the set of paths
  that hold a file.
\<close>

fun upload_array ::
  "env \<Rightarrow> incoming_file list \<Rightarrow> uploaded_file list \<Rightarrow> string set
     \<Rightarrow> (js_error + uploaded_file list) \<times> string set" where
  "upload_array e [] stored disk = (Inr stored, disk)"
| "upload_array e (file # parts) stored disk =
     (if length stored \<ge> 5
      then (Inl (MulterError ''LIMIT_FILE_COUNT''), disk - set (map up_path stored))
      else
        (case fileFilter e file of
           Inl err \<Rightarrow> (Inl err, disk - set (map up_path stored))
         | Inr includeFile \<Rightarrow>
             if \<not> includeFile then upload_array e parts stored disk
             else if in_size file > fileSize_limit e
             then (Inl (MulterError ''LIMIT_FILE_SIZE''), disk - set (map up_path stored))
             else upload_array e parts
                    (stored @ [\<lparr> up_originalname = in_originalname file,
                                  up_mimetype = in_mimetype file,
                                  up_path = stored_path e file,
                                  up_size = in_size file \<rparr>])
                    (insert (stored_path e file) disk)))"

text \<open>\<open>await fs.unlink(file.path).catch(() => {})\<close> for every file of the request.\<close>

definition unlink_all :: "uploaded_file list \<Rightarrow> string set \<Rightarrow> string set" where
  "unlink_all files disk = disk - set (map up_path files)"

text \<open>
  The INSERT loop of the handler. The keys the database generates are an input, and so is
  which of the statements fail; a failure leaves the rows inserted before it in place.
\<close>

fun insert_documents ::
  "(nat \<Rightarrow> bool) \<Rightarrow> (nat \<Rightarrow> string) \<Rightarrow> string \<Rightarrow> string \<Rightarrow> string \<Rightarrow> nat \<Rightarrow> nat
     \<Rightarrow> uploaded_file list \<Rightarrow> document_row list \<Rightarrow> db \<Rightarrow> (js_error + document_row list) \<times> db" where
  "insert_documents fails ids taxReturnId userId documentType now i [] uploadedDocuments store =
     (Inr uploadedDocuments, store)"
| "insert_documents fails ids taxReturnId userId documentType now i (file # files)
       uploadedDocuments store =
     (if fails i then (Inl (DatabaseError ''08006''), store)
      else
        (let row = \<lparr> d_id = ids i,
                     d_tax_return_id = Some taxReturnId,
                     d_uploaded_by = Some userId,
                     d_document_type = documentType,
                     d_original_name = up_originalname file,
                     d_file_path = up_path file,
                     d_file_size = Some (int (up_size file)),
                     d_mime_type = Some (up_mimetype file),
                     d_created_at = now \<rparr>
         in insert_documents fails ids taxReturnId userId documentType now (Suc i) files
              (uploadedDocuments @ [row])
              (store\<lparr> documents := documents store @ [row] \<rparr>)))"

text \<open>A count in a template literal.\<close>

function show_nat :: "nat \<Rightarrow> string" where
  "show_nat n =
     (if n < 10 then [''0123456789'' ! n]
      else show_nat (n div 10) @ [''0123456789'' ! (n mod 10)])"
  by pat_completeness auto
termination
  by (relation "measure id") auto

definition document_object :: "document_row \<Rightarrow> jsval" where
  "document_object d = Obj (document_columns d)"

text \<open>\<open>POST /documents/:taxReturnId\<close>, the final handler.\<close>

definition post_documents_handler ::
  "(nat \<Rightarrow> bool) \<Rightarrow> (nat \<Rightarrow> string) \<Rightarrow> principal \<Rightarrow> string \<Rightarrow> string option \<Rightarrow> nat
     \<Rightarrow> uploaded_file list \<Rightarrow> db \<Rightarrow> string set \<Rightarrow> outcome \<times> db \<times> string set" where
  "post_documents_handler fails ids user taxReturnId documentType now files store disk =
     (case filter (\<lambda>r. tr_id r = taxReturnId) (tax_returns store) of
        [] \<Rightarrow> (json_error 404 ''Tax return not found'', store, unlink_all files disk)
      | taxReturn # rest \<Rightarrow>
          (let hasAccess =
                 (if pr_role user = ''admin'' then True
                  else if pr_role user = ''customer''
                  then (case filter (\<lambda>c. c_user_id c = Some (pr_id user)) (customers store) of
                          [] \<Rightarrow> Undefined
                        | c # cs \<Rightarrow> Str (c_id c)) = of_text (tr_customer_id taxReturn)
                  else if pr_role user = ''accountant''
                  then accountantIdOfUser store (pr_id user) = of_text (tr_accountant_id taxReturn)
                  else False)
           in if \<not> hasAccess
              then (json_error 403 ''Access denied'', store, unlink_all files disk)
              else if files = []
              then (json_error 400 ''No files uploaded'', store, disk)
              else
                (case insert_documents fails ids taxReturnId (pr_id user)
                        (if present documentType then the documentType else ''other'')
                        now 0 files [] store of
                   (Inl error, store') \<Rightarrow> (NextError error, store', unlink_all files disk)
                 | (Inr uploadedDocuments, store') \<Rightarrow>
                     (Respond 201
                        (Obj [(''success'', Bool True),
                              (''message'', Str (show_nat (length uploadedDocuments)
                                                 @ '' document(s) uploaded successfully'')),
                              (''data'', Arr (map document_object uploadedDocuments))]),
                      store', disk))))"

text \<open>The router's error-handling middleware for the upload middleware's errors.\<close>

definition multer_error_handler :: "js_error \<Rightarrow> outcome" where
  "multer_error_handler error =
     (case error of
        MulterError code \<Rightarrow>
          if code = ''LIMIT_FILE_SIZE''
          then json_error 400 ''File too large. Maximum size is 10MB.''
          else if code = ''LIMIT_FILE_COUNT''
          then json_error 400 ''Too many files. Maximum is 5 files per upload.''
          else NextError error
      | _ \<Rightarrow> NextError error)"

text \<open>The route: \<open>authenticate, upload.array('documents', 5), handler\<close>.\<close>

definition post_documents_route ::
  "(string \<Rightarrow> jwt_result) \<Rightarrow> env \<Rightarrow> (nat \<Rightarrow> bool) \<Rightarrow> (nat \<Rightarrow> string) \<Rightarrow> string option
     \<Rightarrow> string \<Rightarrow> string option \<Rightarrow> nat \<Rightarrow> incoming_file list \<Rightarrow> db \<Rightarrow> string set
     \<Rightarrow> outcome \<times> db \<times> string set" where
  "post_documents_route jwt_verify e fails ids authHeader taxReturnId documentType now parts
       store disk =
     (case authenticate jwt_verify store authHeader of
        Inl out \<Rightarrow> (out, store, disk)
      | Inr user \<Rightarrow>
          (case upload_array e parts [] disk of
             (Inl error, disk') \<Rightarrow> (multer_error_handler error, store, disk')
           | (Inr files, disk') \<Rightarrow>
               (case post_documents_handler fails ids user taxReturnId documentType now files
                       store disk' of
                  (NextError error, store', disk'') \<Rightarrow>
                    (multer_error_handler error, store', disk'')
                | (Respond code b, store', disk'') \<Rightarrow> (Respond code b, store', disk''))))"

text \<open>An answer that refuses the request: a status from 400 up, or an error handed on.\<close>

fun rejected :: "outcome \<Rightarrow> bool" where
  "rejected (Respond code b) = (code \<ge> 400)"
| "rejected (NextError e) = True"

definition sample_env :: env where
  "sample_env = \<lparr> ALLOWED_FILE_TYPES = None, MAX_FILE_SIZE = None, UPLOAD_PATH = None \<rparr>"

definition sample_part :: "string \<Rightarrow> string \<Rightarrow> incoming_file" where
  "sample_part name suffix =
     \<lparr> in_fieldname = ''documents'', in_originalname = name, in_mimetype = ''application/pdf'',
       in_size = 2048, in_uniqueSuffix = suffix \<rparr>"

section \<open>A refused upload leaves nothing behind\<close>

lemma authenticate_refusal: "authenticate jwt_verify store authHeader = Inl out \<Longrightarrow> rejected out"
  by (auto simp: authenticate_def json_error_def Let_def
      split: option.splits if_splits jwt_result.splits)

lemma multer_error_handler_rejected: "rejected (multer_error_handler error)"
  by (cases error) (simp_all add: multer_error_handler_def json_error_def)

lemma upload_array_refuses:
  assumes "\<exists>file \<in> set parts. fileExtension file \<notin> set (allowedTypes e)"
  shows "\<exists>err. fst (upload_array e parts stored disk) = Inl err"
  using assms
proof (induction parts arbitrary: stored disk)
  case Nil
  then show ?case by simp
next
  case (Cons part parts)
  show ?case
  proof (cases "fileExtension part \<in> set (allowedTypes e)")
    case False
    then show ?thesis by (simp add: fileFilter_def)
  next
    case True
    then have "\<exists>file \<in> set parts. fileExtension file \<notin> set (allowedTypes e)"
      using Cons.prems by auto
    then show ?thesis
      using Cons.IH True by (simp add: fileFilter_def)
  qed
qed

lemma upload_array_abort:
  assumes "length stored \<ge> 5 \<or> fileExtension part \<notin> set (allowedTypes e)
           \<or> in_size part > fileSize_limit e"
  shows "\<exists>err. upload_array e (part # parts) stored disk =
               (Inl err, disk - set (map up_path stored))"
  using assms by (auto simp: fileFilter_def)

lemma upload_array_keep:
  assumes "length stored < 5" "fileExtension part \<in> set (allowedTypes e)"
    "\<not> in_size part > fileSize_limit e"
  shows "upload_array e (part # parts) stored disk =
           upload_array e parts
             (stored @ [\<lparr> up_originalname = in_originalname part, up_mimetype = in_mimetype part,
                           up_path = stored_path e part, up_size = in_size part \<rparr>])
             (insert (stored_path e part) disk)"
  using assms by (simp add: fileFilter_def)

lemma upload_array_cleans:
  assumes "fst (upload_array e parts stored disk) = Inl err"
  shows "\<exists>N. N \<subseteq> stored_path e ` set parts
           \<and> snd (upload_array e parts stored disk) = disk - (set (map up_path stored) \<union> N)"
  using assms
proof (induction parts arbitrary: stored disk)
  case Nil
  then show ?case by simp
next
  case (Cons part parts)
  let ?new = "\<lparr> up_originalname = in_originalname part, up_mimetype = in_mimetype part,
                up_path = stored_path e part, up_size = in_size part \<rparr>"
  show ?case
  proof (cases "length stored \<ge> 5 \<or> fileExtension part \<notin> set (allowedTypes e)
                \<or> in_size part > fileSize_limit e")
    case True
    then have "\<exists>err'. upload_array e (part # parts) stored disk =
                       (Inl err', disk - set (map up_path stored))"
      by (rule upload_array_abort)
    then have "{} \<subseteq> stored_path e ` set (part # parts)
               \<and> snd (upload_array e (part # parts) stored disk) =
                   disk - (set (map up_path stored) \<union> {})"
      by (auto simp del: upload_array.simps)
    then show ?thesis by (rule exI)
  next
    case False
    then have step: "upload_array e (part # parts) stored disk =
                       upload_array e parts (stored @ [?new]) (insert (stored_path e part) disk)"
      using upload_array_keep [of stored part e parts disk] by (simp del: upload_array.simps)
    have "fst (upload_array e parts (stored @ [?new]) (insert (stored_path e part) disk)) =
            Inl err"
      using Cons.prems unfolding step .
    then have "\<exists>N. N \<subseteq> stored_path e ` set parts
                 \<and> snd (upload_array e parts (stored @ [?new]) (insert (stored_path e part) disk)) =
                     insert (stored_path e part) disk - (set (map up_path (stored @ [?new])) \<union> N)"
      by (rule Cons.IH)
    then show ?thesis
    proof (elim exE conjE)
      fix N
      assume N: "N \<subseteq> stored_path e ` set parts"
        "snd (upload_array e parts (stored @ [?new]) (insert (stored_path e part) disk)) =
           insert (stored_path e part) disk - (set (map up_path (stored @ [?new])) \<union> N)"
      have sub: "insert (stored_path e part) N \<subseteq> stored_path e ` set (part # parts)"
        using N(1) by auto
      have "insert (stored_path e part) disk - (set (map up_path (stored @ [?new])) \<union> N) =
            disk - (set (map up_path stored) \<union> insert (stored_path e part) N)"
        by auto
      then have "snd (upload_array e (part # parts) stored disk) =
                   disk - (set (map up_path stored) \<union> insert (stored_path e part) N)"
        unfolding step N(2) .
      with sub have "insert (stored_path e part) N \<subseteq> stored_path e ` set (part # parts)
                     \<and> snd (upload_array e (part # parts) stored disk) =
                         disk - (set (map up_path stored) \<union> insert (stored_path e part) N)"
        by (rule conjI)
      then show ?thesis by (rule exI)
    qed
  qed
qed

text \<open>
  C8. For every upload request that contains a file whose extension (the lower-cased
  extension of its original name) is not in the configured allow-list: the request is
  refused (a 4xx answer or an error handed to the error responder); the store after it is the
  store before it, so no \<open>documents\<close> row has been written; and every file on the disk
  after it was on the disk before it, so no file of the request remains. When the names
  generated for the request's files were new, the disk is exactly as before.
\<close>

theorem disallowed_upload_rejected:
  assumes bad: "\<exists>file \<in> set parts. fileExtension file \<notin> set (allowedTypes e)"
  shows "rejected (fst (post_documents_route jwt_verify e fails ids authHeader taxReturnId
                          documentType now parts store disk))
       \<and> fst (snd (post_documents_route jwt_verify e fails ids authHeader taxReturnId
                      documentType now parts store disk)) = store
       \<and> snd (snd (post_documents_route jwt_verify e fails ids authHeader taxReturnId
                      documentType now parts store disk)) \<subseteq> disk
       \<and> ((\<forall>file \<in> set parts. stored_path e file \<notin> disk) \<longrightarrow>
            snd (snd (post_documents_route jwt_verify e fails ids authHeader taxReturnId
                        documentType now parts store disk)) = disk)"
proof (cases "authenticate jwt_verify store authHeader")
  case (Inl out)
  then show ?thesis
    using authenticate_refusal [OF Inl] by (simp add: post_documents_route_def)
next
  case (Inr user)
  have "\<exists>err. fst (upload_array e parts [] disk) = Inl err"
    using bad by (rule upload_array_refuses)
  then show ?thesis
  proof (elim exE)
    fix err
    assume err: "fst (upload_array e parts [] disk) = Inl err"
    then have "\<exists>N. N \<subseteq> stored_path e ` set parts
                 \<and> snd (upload_array e parts [] disk) =
                     disk - (set (map up_path ([] :: uploaded_file list)) \<union> N)"
      by (rule upload_array_cleans)
    then show ?thesis
    proof (elim exE conjE)
      fix N
      assume N: "N \<subseteq> stored_path e ` set parts"
        "snd (upload_array e parts [] disk) =
           disk - (set (map up_path ([] :: uploaded_file list)) \<union> N)"
      have run: "upload_array e parts [] disk = (Inl err, disk - N)"
        using err N(2) by (simp add: prod_eq_iff)
      have same: "disk - N = disk" if "\<forall>file \<in> set parts. stored_path e file \<notin> disk"
        using N(1) that by auto
      have route: "post_documents_route jwt_verify e fails ids authHeader taxReturnId
                     documentType now parts store disk =
                   (multer_error_handler err, store, disk - N)"
        by (simp add: post_documents_route_def Inr run)
      show ?thesis
        unfolding route using multer_error_handler_rejected [of err] same by auto
    qed
  qed
qed

theorem disallowed_upload_rejected_witness:
  "fileExtension (sample_part ''virus.EXE'' ''1700000000-2'') = ''exe''
   \<and> post_documents_route sample_verify sample_env (\<lambda>i. False) (\<lambda>i. ''d-9'')
        (Some ''Bearer tok-u-cust'') ''r-1'' None 9
        [sample_part ''p60.pdf'' ''1700000000-1'', sample_part ''virus.EXE'' ''1700000000-2'']
        sample_store {''./uploads/documents-1600000000-7.pdf''} =
       (NextError (Error ''File type .exe is not allowed. Allowed types: pdf, jpg, jpeg, png, doc, docx, xls, xlsx''),
        sample_store, {''./uploads/documents-1600000000-7.pdf''})"
proof -
  have ext: "fileExtension (sample_part ''virus.EXE'' ''1700000000-2'') = ''exe''"
    by (simp add: fileExtension_def sample_part_def extname_def last_component_def
        toLowerCase_def Let_def)
  have types: "allowedTypes sample_env =
                 [''pdf'', ''jpg'', ''jpeg'', ''png'', ''doc'', ''docx'', ''xls'', ''xlsx'']"
    by (simp add: allowedTypes_def sample_env_def present_def)
  have bad: "\<exists>file \<in> set [sample_part ''p60.pdf'' ''1700000000-1'',
                            sample_part ''virus.EXE'' ''1700000000-2''].
               fileExtension file \<notin> set (allowedTypes sample_env)"
    by (simp add: ext types)
  have p1: "stored_path sample_env (sample_part ''p60.pdf'' ''1700000000-1'') =
              ''./uploads/documents-1700000000-1.pdf''"
    by (simp add: stored_path_def filename_def sample_part_def sample_env_def present_def
        extname_def last_component_def Let_def)
  have p2: "stored_path sample_env (sample_part ''virus.EXE'' ''1700000000-2'') =
              ''./uploads/documents-1700000000-2.EXE''"
    by (simp add: stored_path_def filename_def sample_part_def sample_env_def present_def
        extname_def last_component_def Let_def)
  have fresh: "\<forall>file \<in> set [sample_part ''p60.pdf'' ''1700000000-1'',
                              sample_part ''virus.EXE'' ''1700000000-2''].
                 stored_path sample_env file \<notin> {''./uploads/documents-1600000000-7.pdf''}"
    by (simp add: p1 p2)
  have auth: "authenticate sample_verify sample_store (Some ''Bearer tok-u-cust'') =
                Inr \<lparr> pr_id = ''u-cust'', pr_email = ''cust@example.com'', pr_role = ''customer'',
                      pr_firstName = ''Ada'', pr_lastName = ''Smith'' \<rparr>"
    by (simp add: authenticate_def startsWith_def sample_verify_def User_findById_def
        sample_store_def sample_user_def new_User_def)
  have ext1: "fileExtension (sample_part ''p60.pdf'' ''1700000000-1'') = ''pdf''"
    by (simp add: fileExtension_def sample_part_def extname_def last_component_def
        toLowerCase_def Let_def)
  have size1: "\<not> in_size (sample_part ''p60.pdf'' ''1700000000-1'') > fileSize_limit sample_env"
    by (simp add: sample_part_def fileSize_limit_def sample_env_def)
  have out: "fst (post_documents_route sample_verify sample_env (\<lambda>i. False) (\<lambda>i. ''d-9'')
        (Some ''Bearer tok-u-cust'') ''r-1'' None 9
        [sample_part ''p60.pdf'' ''1700000000-1'', sample_part ''virus.EXE'' ''1700000000-2'']
        sample_store {''./uploads/documents-1600000000-7.pdf''}) =
      NextError (Error ''File type .exe is not allowed. Allowed types: pdf, jpg, jpeg, png, doc, docx, xls, xlsx'')"
    by (simp add: post_documents_route_def auth fileFilter_def ext ext1 types size1
        multer_error_handler_def)
  show ?thesis
    using disallowed_upload_rejected [OF bad, of sample_verify "\<lambda>i. False" "\<lambda>i. ''d-9''"
        "Some ''Bearer tok-u-cust''" "''r-1''" None 9 sample_store
        "{''./uploads/documents-1600000000-7.pdf''}"] fresh out ext
    by (simp add: prod_eq_iff)
qed

end
